theory Spec2Isabelle
  imports Complex_Main
begin

section \<open>Cells, rows and frames\<close>

text \<open>
  The transform stage of the pipeline (\<^verbatim>\<open>transform.py\<close>) works on pandas frames. A frame
  is modelled by its column labels and its rows; a row maps a column label to a cell, and
  a cell is a scalar Python value. A float is a real number or NaN: rounding, infinities
  and the 64-bit range of numeric columns are not modelled. Strings are byte strings
  (UTF-8), so a character outside ASCII is several bytes, none of them an ASCII byte.
\<close>

datatype pyfloat = Fl real | NaN

datatype pyval = PNone | PBool bool | PInt int | PFloat pyfloat | PStr string

type_synonym row = "string \<rightharpoonup> pyval"

record frame =
  cols :: "string list"
  recs :: "row list"

datatype pyerr = KeyError | AttributeError | ValueError | TypeError

text \<open>\<^verbatim>\<open>row.get(c)\<close>: the cell, or None when the row has no such label.\<close>

definition row_get :: "row \<Rightarrow> string \<Rightarrow> pyval" where
  "row_get r c = (case r c of None \<Rightarrow> PNone | Some v \<Rightarrow> v)"

text \<open>Python truth value of a cell: NaN is a non-zero float, hence true.\<close>

fun truthy :: "pyval \<Rightarrow> bool" where
  "truthy PNone = False"
| "truthy (PBool b) = b"
| "truthy (PInt i) = (i \<noteq> 0)"
| "truthy (PFloat (Fl x)) = (x \<noteq> 0)"
| "truthy (PFloat NaN) = True"
| "truthy (PStr s) = (s \<noteq> [])"

text \<open>The number a cell stands for in a comparison: bool is a subtype of int.\<close>

fun num_of :: "pyval \<Rightarrow> real option" where
  "num_of (PBool b) = Some (if b then 1 else 0)"
| "num_of (PInt i) = Some (of_int i)"
| "num_of (PFloat (Fl x)) = Some x"
| "num_of _ = None"

text \<open>Python \<^verbatim>\<open>==\<close> on cells: numbers by value, NaN equal to nothing.\<close>

fun py_eq :: "pyval \<Rightarrow> pyval \<Rightarrow> bool" where
  "py_eq PNone PNone = True"
| "py_eq (PStr a) (PStr b) = (a = b)"
| "py_eq a b = (case (num_of a, num_of b) of (Some x, Some y) \<Rightarrow> x = y | _ \<Rightarrow> False)"

definition is_str :: "pyval \<Rightarrow> bool" where
  "is_str v = (case v of PStr _ \<Rightarrow> True | _ \<Rightarrow> False)"

definition the_str :: "pyval \<Rightarrow> string" where
  "the_str v = (case v of PStr s \<Rightarrow> s | _ \<Rightarrow> [])"

text \<open>\<^verbatim>\<open>pd.isna\<close> on a cell.\<close>

definition isna :: "pyval \<Rightarrow> bool" where
  "isna v = (v = PNone \<or> v = PFloat NaN)"

text \<open>\<^verbatim>\<open>df[name] = values\<close>: an existing column is replaced, a new one is appended.\<close>

definition add_col :: "string list \<Rightarrow> string \<Rightarrow> string list" where
  "add_col cs c = (if c \<in> set cs then cs else cs @ [c])"

definition set_column :: "string \<Rightarrow> pyval list \<Rightarrow> frame \<Rightarrow> frame" where
  "set_column name vs df =
     df\<lparr>cols := add_col (cols df) name,
        recs := map2 (\<lambda>r v. r(name \<mapsto> v)) (recs df) vs\<rparr>"

section \<open>Fraud scoring\<close>

text \<open>\<^verbatim>\<open>s.split(sep)\<close> for a one-character separator, and \<^verbatim>\<open>s.lower()\<close> on ASCII.\<close>

fun split_on :: "char \<Rightarrow> string \<Rightarrow> string list" where
  "split_on c [] = [[]]"
| "split_on c (x # xs) =
     (if x = c then [] # split_on c xs
      else (case split_on c xs of [] \<Rightarrow> [[x]] | p # ps \<Rightarrow> (x # p) # ps))"

definition lower_char :: "char \<Rightarrow> char" where
  "lower_char c =
     (if 65 \<le> (of_char c :: nat) \<and> (of_char c :: nat) \<le> 90
      then char_of ((of_char c :: nat) + 32) else c)"

definition lower :: "string \<Rightarrow> string" where
  "lower s = map lower_char s"

definition DISPOSABLE_EMAIL_DOMAINS :: "string list" where
  "DISPOSABLE_EMAIL_DOMAINS =
     [''mailinator.com'', ''10minutemail.com'', ''tempmail.com'', ''trashmail.com'']"

text \<open>The inner function \<^verbatim>\<open>_email_domain\<close> of \<^verbatim>\<open>flag_fraud\<close>.\<close>

definition email_domain :: "pyval \<Rightarrow> string option" where
  "email_domain email =
     (if \<not> truthy email \<or> \<not> is_str email then None
      else let parts = split_on CHR ''@'' (the_str email)
           in if length parts = 2 then Some (lower (last parts)) else None)"

text \<open>
  \<^verbatim>\<open>float(v)\<close>. Python's parser of float literals is passed in as \<open>sf\<close>; \<open>None\<close> stands
  for the exception (TypeError on None, ValueError on a string that is no literal).
\<close>

fun py_float :: "(string \<Rightarrow> pyfloat option) \<Rightarrow> pyval \<Rightarrow> pyfloat option" where
  "py_float sf PNone = None"
| "py_float sf (PBool b) = Some (Fl (if b then 1 else 0))"
| "py_float sf (PInt i) = Some (Fl (of_int i))"
| "py_float sf (PFloat f) = Some f"
| "py_float sf (PStr s) = sf s"

text \<open>\<^verbatim>\<open>x >= t\<close> on floats: false on NaN.\<close>

fun fl_ge :: "pyfloat \<Rightarrow> real \<Rightarrow> bool" where
  "fl_ge (Fl x) t = (t \<le> x)"
| "fl_ge NaN t = False"

text \<open>The value \<^verbatim>\<open>otv\<close> of the loop body: the try block with its fallback 0.0.\<close>

definition order_total_value :: "(string \<Rightarrow> pyfloat option) \<Rightarrow> pyval \<Rightarrow> pyfloat" where
  "order_total_value sf ot =
     (if ot \<noteq> PNone \<and> \<not> (ot = PFloat NaN)
      then (case py_float sf ot of Some x \<Rightarrow> x | None \<Rightarrow> Fl 0)
      else Fl 0)"

text \<open>One pass of the loop body of \<^verbatim>\<open>flag_fraud\<close>: the score of a row.\<close>

definition row_score :: "(string \<Rightarrow> pyfloat option) \<Rightarrow> real \<Rightarrow> string set \<Rightarrow> row \<Rightarrow> int" where
  "row_score sf high_value_threshold suspicious r =
     (let score = 0;
          otv = order_total_value sf (row_get r ''order_total'');
          score = (if fl_ge otv high_value_threshold then score + 3 else score);
          score = (if truthy (row_get r ''shipping_country'')
                      \<and> truthy (row_get r ''billing_country'')
                      \<and> \<not> py_eq (row_get r ''shipping_country'') (row_get r ''billing_country'')
                   then score + 2 else score);
          ed = email_domain (row_get r ''email'');
          score = (case ed of None \<Rightarrow> score
                   | Some d \<Rightarrow> if d \<noteq> [] \<and> d \<in> suspicious then score + 3 else score);
          missing_identity =
            list_ex (\<lambda>c. \<not> truthy (row_get r c)) [''billing_name'', ''billing_address''];
          score = (if missing_identity then score + 1 else score)
      in score)"

definition flag_fraud ::
  "(string \<Rightarrow> pyfloat option) \<Rightarrow> frame \<Rightarrow> real \<Rightarrow> string list \<Rightarrow> frame" where
  "flag_fraud sf df high_value_threshold suspicious_email_domains =
     (let suspicious = set suspicious_email_domains \<union> set DISPOSABLE_EMAIL_DOMAINS;
          scores = map (row_score sf high_value_threshold suspicious) (recs df);
          flags = map (\<lambda>score. 4 \<le> score) scores
      in set_column ''fraud_flag'' (map PBool flags)
           (set_column ''fraud_score'' (map PInt scores) df))"

section \<open>Business validation\<close>

text \<open>\<^verbatim>\<open>str(v)\<close> on a cell; the text of a float is passed in as \<open>fr\<close>.\<close>

fun show_nat :: "nat \<Rightarrow> string" where
  "show_nat n =
     (if n < 10 then [char_of (48 + n)]
      else show_nat (n div 10) @ [char_of (48 + n mod 10)])"

definition show_int :: "int \<Rightarrow> string" where
  "show_int i = (if i < 0 then CHR ''-'' # show_nat (nat (- i)) else show_nat (nat i))"

fun py_str :: "(pyfloat \<Rightarrow> string) \<Rightarrow> pyval \<Rightarrow> string" where
  "py_str fr PNone = ''None''"
| "py_str fr (PBool b) = (if b then ''True'' else ''False'')"
| "py_str fr (PInt i) = show_int i"
| "py_str fr (PFloat f) = fr f"
| "py_str fr (PStr s) = s"

text \<open>
  The pattern \<^verbatim>\<open>[^@\s]+@[^@\s]+\.[^@\s]+\<close> under \<^verbatim>\<open>re.match\<close>, which anchors at the start
  of the string only. The first group runs to the first \<^verbatim>\<open>@\<close> or white space and must stop
  at an \<^verbatim>\<open>@\<close>; the run after it must hold a dot that is neither its first nor its last
  character. White space is the ASCII part of \<^verbatim>\<open>\s\<close>.
\<close>

definition is_space :: "char \<Rightarrow> bool" where
  "is_space c = (let n = (of_char c :: nat) in (9 \<le> n \<and> n \<le> 13) \<or> (28 \<le> n \<and> n \<le> 32))"

definition email_char :: "char \<Rightarrow> bool" where
  "email_char c = (c \<noteq> CHR ''@'' \<and> \<not> is_space c)"

definition email_re_match :: "string \<Rightarrow> bool" where
  "email_re_match s =
     (let local_part = takeWhile email_char s;
          rest = dropWhile email_char s
      in local_part \<noteq> [] \<and>
         (case rest of [] \<Rightarrow> False
          | c # after \<Rightarrow> c = CHR ''@'' \<and>
              (let t = takeWhile email_char after
               in list_ex (\<lambda>i. t ! i = CHR ''.'') [1 ..< length t - 1])))"

definition DEFAULT_REQUIRED_FIELDS :: "string list" where
  "DEFAULT_REQUIRED_FIELDS = [''order_id'', ''customer_id'', ''order_date'', ''order_total'']"

definition DEFAULT_ALLOWED_STATUSES :: "string list" where
  "DEFAULT_ALLOWED_STATUSES = [''paid'', ''pending'', ''refunded'', ''cancelled'']"

text \<open>\<^verbatim>\<open>x or default\<close> for an optional iterable: None and the empty one both give the default.\<close>

definition or_default :: "'a list option \<Rightarrow> 'a list \<Rightarrow> 'a list" where
  "or_default x d = (case x of None \<Rightarrow> d | Some xs \<Rightarrow> if xs = [] then d else xs)"

text \<open>\<^verbatim>\<open>v in allowed_statuses\<close> for a set of strings.\<close>

definition status_in :: "pyval \<Rightarrow> string set \<Rightarrow> bool" where
  "status_in v allowed = (case v of PStr s \<Rightarrow> s \<in> allowed | _ \<Rightarrow> False)"

text \<open>
  The cells that \<^verbatim>\<open>validate_orders\<close> may meet. Beside the scalars a frame of orders can
  hold \<^verbatim>\<open>pd.NA\<close>, the missing value of the nullable dtypes, and containers (the lists and
  dicts that the parsers of the DAG put into an order). Of a container the code looks at
  its truth value, which is whether it has elements, and at its text.
\<close>

datatype cell = Scalar pyval | NA | Container bool string

type_synonym object_row = "string \<rightharpoonup> cell"

record object_frame =
  ocols :: "string list"
  orecs :: "object_row list"

definition cell_get :: "object_row \<Rightarrow> string \<Rightarrow> cell" where
  "cell_get r c = (case r c of None \<Rightarrow> Scalar PNone | Some v \<Rightarrow> v)"

text \<open>\<^verbatim>\<open>str(v)\<close> on such a cell.\<close>

fun cell_str :: "(pyfloat \<Rightarrow> string) \<Rightarrow> cell \<Rightarrow> string" where
  "cell_str fr (Scalar v) = py_str fr v"
| "cell_str fr NA = ''<NA>''"
| "cell_str fr (Container nonempty text) = text"

text \<open>
  The three tests of the loop body. \<^verbatim>\<open>pd.NA\<close> has no truth value: \<^verbatim>\<open>not v\<close> and
  \<^verbatim>\<open>v and ...\<close> raise TypeError on it. A container is true when it has elements and is
  never equal to 0; it cannot be hashed, so looking it up in the set of the allowed
  statuses raises TypeError.
\<close>

fun missing_test :: "cell \<Rightarrow> pyerr + bool" where
  "missing_test (Scalar v) = Inr (\<not> truthy v \<and> \<not> py_eq v (PInt 0))"
| "missing_test NA = Inl TypeError"
| "missing_test (Container nonempty text) = Inr (\<not> nonempty)"

fun status_test :: "string set \<Rightarrow> cell \<Rightarrow> pyerr + bool" where
  "status_test allowed (Scalar v) = Inr (truthy v \<and> \<not> status_in v allowed)"
| "status_test allowed NA = Inl TypeError"
| "status_test allowed (Container nonempty text) = (if nonempty then Inl TypeError else Inr False)"

fun email_test :: "(pyfloat \<Rightarrow> string) \<Rightarrow> cell \<Rightarrow> pyerr + bool" where
  "email_test fr (Scalar v) = Inr (truthy v \<and> \<not> email_re_match (py_str fr v))"
| "email_test fr NA = Inl TypeError"
| "email_test fr (Container nonempty text) = Inr (nonempty \<and> \<not> email_re_match text)"

text \<open>The loop over the required fields, with the issues found so far.\<close>

fun missing_fields :: "object_row \<Rightarrow> string list \<Rightarrow> string list \<Rightarrow> pyerr + string list" where
  "missing_fields r issues [] = Inr issues"
| "missing_fields r issues (f # fs) =
     (case missing_test (cell_get r f) of
        Inl e \<Rightarrow> Inl e
      | Inr m \<Rightarrow> missing_fields r (if m then issues @ [''missing_'' @ f] else issues) fs)"

text \<open>The body of the loop over the rows: the issues of one row, or the raise.\<close>

definition row_issues ::
  "(pyfloat \<Rightarrow> string) \<Rightarrow> string list \<Rightarrow> string set \<Rightarrow> object_row \<Rightarrow> pyerr + string list" where
  "row_issues fr required_fields allowed_statuses r =
     (case missing_fields r [] required_fields of
        Inl e \<Rightarrow> Inl e
      | Inr issues \<Rightarrow>
          (case (if r ''status'' = None then Inr False
                 else status_test allowed_statuses (cell_get r ''status'')) of
             Inl e \<Rightarrow> Inl e
           | Inr bad_status \<Rightarrow>
               let issues = (if bad_status
                             then issues @ [''invalid_status:'' @ cell_str fr (cell_get r ''status'')]
                             else issues)
               in (case email_test fr (cell_get r ''email'') of
                     Inl e \<Rightarrow> Inl e
                   | Inr bad_email \<Rightarrow>
                       Inr (if bad_email then issues @ [''invalid_email''] else issues))))"

text \<open>The loop over the rows stops at the first row that raises.\<close>

fun each_row :: "('a \<Rightarrow> pyerr + 'b) \<Rightarrow> 'a list \<Rightarrow> pyerr + 'b list" where
  "each_row f [] = Inr []"
| "each_row f (r # rs) =
     (case f r of
        Inl e \<Rightarrow> Inl e
      | Inr x \<Rightarrow> (case each_row f rs of Inl e \<Rightarrow> Inl e | Inr xs \<Rightarrow> Inr (x # xs)))"

text \<open>
  The column \<^verbatim>\<open>validation_issues\<close> holds a list of strings in every cell, so the result
  keeps that column beside the frame: \<open>vframe\<close> is the copy of the input with the new
  label, \<open>validation_issues\<close> the lists, one for each row.
\<close>

record validated =
  vframe :: object_frame
  validation_issues :: "string list list"

definition validate_orders ::
  "(pyfloat \<Rightarrow> string) \<Rightarrow> object_frame \<Rightarrow> string list option \<Rightarrow> string list option
     \<Rightarrow> pyerr + validated" where
  "validate_orders fr df required_fields allowed_statuses =
     (let required = or_default required_fields DEFAULT_REQUIRED_FIELDS;
          allowed = set (or_default allowed_statuses DEFAULT_ALLOWED_STATUSES)
      in case each_row (row_issues fr required allowed) (orecs df) of
           Inl e \<Rightarrow> Inl e
         | Inr issues_list \<Rightarrow>
             Inr \<lparr>vframe = df\<lparr>ocols := add_col (ocols df) ''validation_issues''\<rparr>,
                  validation_issues = issues_list\<rparr>)"

text \<open>A frame of scalar cells, as the other stages produce it, read as a frame of objects.\<close>

definition as_objects :: "frame \<Rightarrow> object_frame" where
  "as_objects df = \<lparr>ocols = cols df, orecs = map (\<lambda>r c. map_option Scalar (r c)) (recs df)\<rparr>"

section \<open>Decimal literals\<close>

text \<open>
  \<^verbatim>\<open>float(s)\<close> on a string over the digits, the dot and the minus sign, which is all that
  \<^verbatim>\<open>_CURRENCY_RE.sub("", s)\<close> leaves: an optional leading minus, then digits with at most
  one dot and at least one digit. Anything else is a ValueError, here \<open>None\<close>.
\<close>

definition is_digit :: "char \<Rightarrow> bool" where
  "is_digit c = (48 \<le> (of_char c :: nat) \<and> (of_char c :: nat) \<le> 57)"

definition digits_val :: "string \<Rightarrow> nat" where
  "digits_val s = foldl (\<lambda>n c. 10 * n + ((of_char c :: nat) - 48)) 0 s"

definition float_of_unsigned :: "string \<Rightarrow> real option" where
  "float_of_unsigned s =
     (let ip = takeWhile is_digit s; r = dropWhile is_digit s
      in case r of
           [] \<Rightarrow> if ip = [] then None else Some (real (digits_val ip))
         | c # fp \<Rightarrow>
             if c = CHR ''.'' \<and> list_all is_digit fp \<and> (ip \<noteq> [] \<or> fp \<noteq> [])
             then Some (real (digits_val ip) + real (digits_val fp) / 10 ^ length fp)
             else None)"

definition float_of_decimal :: "string \<Rightarrow> pyfloat option" where
  "float_of_decimal s =
     (case s of [] \<Rightarrow> None
      | c # t \<Rightarrow> if c = CHR ''-'' then map_option (\<lambda>x. Fl (- x)) (float_of_unsigned t)
                 else map_option Fl (float_of_unsigned s))"

section \<open>The claims about fraud scoring, as stated\<close>

text \<open>
  The score in the words of the specification. An order total that is missing (None or
  NaN) or does not parse is no float and never fires the first rule. An email has a
  domain when it is a string with exactly one \<^verbatim>\<open>@\<close> and a non-empty part after it.
\<close>

definition claimed_total :: "(string \<Rightarrow> pyfloat option) \<Rightarrow> pyval \<Rightarrow> pyfloat option" where
  "claimed_total sf ot = (if isna ot then None else py_float sf ot)"

definition claimed_domain :: "pyval \<Rightarrow> string option" where
  "claimed_domain email =
     (case email of
        PStr s \<Rightarrow> if count_list s CHR ''@'' = 1 \<and> last (split_on CHR ''@'' s) \<noteq> []
                  then Some (lower (last (split_on CHR ''@'' s))) else None
      | _ \<Rightarrow> None)"

definition claimed_score :: "(string \<Rightarrow> pyfloat option) \<Rightarrow> real \<Rightarrow> string set \<Rightarrow> row \<Rightarrow> int" where
  "claimed_score sf threshold suspicious r =
     (case claimed_total sf (row_get r ''order_total'') of
        None \<Rightarrow> 0 | Some x \<Rightarrow> if fl_ge x threshold then 3 else 0)
     + (if truthy (row_get r ''shipping_country'') \<and> truthy (row_get r ''billing_country'')
           \<and> \<not> py_eq (row_get r ''shipping_country'') (row_get r ''billing_country'')
        then 2 else 0)
     + (case claimed_domain (row_get r ''email'') of
          None \<Rightarrow> 0 | Some d \<Rightarrow> if d \<in> suspicious then 3 else 0)
     + (if \<not> truthy (row_get r ''billing_name'') \<or> \<not> truthy (row_get r ''billing_address'')
        then 1 else 0)"

text \<open>
  The disposable-email rule in the words of the specification: the email holds exactly
  one \<^verbatim>\<open>@\<close>, and the part after it equals some member of the built-in or the
  caller-supplied domains when case is ignored.
\<close>

definition claimed_disposable :: "string list \<Rightarrow> pyval \<Rightarrow> bool" where
  "claimed_disposable supplied email =
     (case email of
        PStr s \<Rightarrow> count_list s CHR ''@'' = 1 \<and>
                  list_ex (\<lambda>d. lower d = lower (last (split_on CHR ''@'' s)))
                    (supplied @ DISPOSABLE_EMAIL_DOMAINS)
      | _ \<Rightarrow> False)"

text \<open>Two orders of the test suite, and an order with nothing but its identifier.\<close>

definition fraud_example :: frame where
  "fraud_example =
     \<lparr>cols = [''order_total'', ''shipping_country'', ''billing_country'', ''email''],
      recs = [[''order_total'' \<mapsto> PInt 2000],
              [''order_total'' \<mapsto> PInt 50, ''shipping_country'' \<mapsto> PStr ''US'',
               ''billing_country'' \<mapsto> PStr ''US'', ''email'' \<mapsto> PStr ''ok@example.com'']]\<rparr>"

definition bare_order :: frame where
  "bare_order = \<lparr>cols = [''order_id''], recs = [[''order_id'' \<mapsto> PStr ''o1'']]\<rparr>"

definition mixed_case_order :: frame where
  "mixed_case_order =
     \<lparr>cols = [''email'', ''billing_name'', ''billing_address''],
      recs = [[''email'' \<mapsto> PStr ''x@Evil.COM'', ''billing_name'' \<mapsto> PStr ''n'',
               ''billing_address'' \<mapsto> PStr ''a'']]\<rparr>"

section \<open>The claims about validation, as stated\<close>

text \<open>
  The pattern local@domain.tld, as a set of strings: a string fits when it starts with a
  non-empty local part, an \<^verbatim>\<open>@\<close>, a non-empty domain, a dot and a non-empty last part, none
  of the three holding an \<^verbatim>\<open>@\<close> or white space.
\<close>

definition claimed_email_pattern :: "string \<Rightarrow> bool" where
  "claimed_email_pattern s =
     (\<exists>a b c rest. s = a @ ''@'' @ b @ ''.'' @ c @ rest
        \<and> a \<noteq> [] \<and> b \<noteq> [] \<and> c \<noteq> []
        \<and> list_all email_char a \<and> list_all email_char b \<and> list_all email_char c)"

text \<open>
  A cell is truthy when it is a truthy scalar or a container with elements; it is the
  number zero when it is a scalar that compares equal to 0. A required field is missing
  when its value is not truthy and is not the number zero. (\<^verbatim>\<open>pd.NA\<close> has no truth value;
  the rows where the code asks for it are those of \<open>claimed_raises\<close> below.) The issues
  of a row, in the order the specification lists them.
\<close>

definition cell_truthy :: "cell \<Rightarrow> bool" where
  "cell_truthy c =
     (case c of Scalar v \<Rightarrow> truthy v | NA \<Rightarrow> False | Container nonempty text \<Rightarrow> nonempty)"

definition number_zero :: "cell \<Rightarrow> bool" where
  "number_zero c = (case c of Scalar v \<Rightarrow> num_of v = Some 0 | _ \<Rightarrow> False)"

definition claimed_missing :: "cell \<Rightarrow> bool" where
  "claimed_missing c = (\<not> cell_truthy c \<and> \<not> number_zero c)"

definition in_allowed :: "cell \<Rightarrow> string set \<Rightarrow> bool" where
  "in_allowed c allowed = (case c of Scalar (PStr s) \<Rightarrow> s \<in> allowed | _ \<Rightarrow> False)"

definition claimed_issues ::
  "(pyfloat \<Rightarrow> string) \<Rightarrow> string list \<Rightarrow> string set \<Rightarrow> object_row \<Rightarrow> string list" where
  "claimed_issues fr required allowed r =
     map (\<lambda>f. ''missing_'' @ f) (filter (\<lambda>f. claimed_missing (cell_get r f)) required)
     @ (case r ''status'' of None \<Rightarrow> []
        | Some v \<Rightarrow> if cell_truthy v \<and> \<not> in_allowed v allowed
                    then [''invalid_status:'' @ cell_str fr v] else [])
     @ (case r ''email'' of None \<Rightarrow> []
        | Some e \<Rightarrow> if cell_truthy e \<and> \<not> claimed_email_pattern (cell_str fr e)
                    then [''invalid_email''] else [])"

text \<open>
  The rows on which the claim, as amended, says that the call raises: those that hold
  \<^verbatim>\<open>pd.NA\<close> in a required field, in the status or in the email, and those whose status is
  a container with elements.
\<close>

definition claimed_raises :: "string list \<Rightarrow> object_row \<Rightarrow> bool" where
  "claimed_raises required r =
     (list_ex (\<lambda>f. cell_get r f = NA) required
      \<or> (case r ''status'' of Some NA \<Rightarrow> True | Some (Container nonempty text) \<Rightarrow> nonempty
          | _ \<Rightarrow> False)
      \<or> r ''email'' = Some NA)"

text \<open>A text for floats that is enough for the examples: only NaN is spelled out.\<close>

definition float_text :: "pyfloat \<Rightarrow> string" where
  "float_text f = (case f of NaN \<Rightarrow> ''nan'' | Fl x \<Rightarrow> ''float'')"

definition validation_example :: object_frame where
  "validation_example =
     \<lparr>ocols = [''order_id'', ''customer_id'', ''order_date'', ''order_total'', ''status'', ''email''],
      orecs = [[''customer_id'' \<mapsto> Scalar (PStr ''c1''),
                ''order_date'' \<mapsto> Scalar (PStr ''2020-01-01''),
                ''order_total'' \<mapsto> Scalar (PInt 0), ''status'' \<mapsto> Scalar (PStr ''shipped''),
                ''email'' \<mapsto> Scalar (PStr ''nobody'')],
               [''order_id'' \<mapsto> Scalar (PStr ''o2''), ''customer_id'' \<mapsto> Scalar (PStr ''c1''),
                ''order_date'' \<mapsto> Scalar (PStr ''2020-01-01''),
                ''order_total'' \<mapsto> Scalar (PInt 10),
                ''status'' \<mapsto> Scalar (PStr ''paid''),
                ''email'' \<mapsto> Scalar (PStr ''ok@example.com'')],
               [''order_id'' \<mapsto> Scalar (PStr ''o3''), ''customer_id'' \<mapsto> Scalar (PStr ''c2''),
                ''order_date'' \<mapsto> Scalar (PFloat NaN),
                ''order_total'' \<mapsto> Scalar (PFloat NaN)]]\<rparr>"


definition list_status_example :: object_frame where
  "list_status_example =
     \<lparr>ocols = [''order_id'', ''customer_id'', ''order_date'', ''order_total'', ''status''],
      orecs = [[''order_id'' \<mapsto> Scalar (PStr ''o1''), ''customer_id'' \<mapsto> Scalar (PStr ''c1''),
                ''order_date'' \<mapsto> Scalar (PStr ''2020-01-01''),
                ''order_total'' \<mapsto> Scalar (PInt 10),
                ''status'' \<mapsto> Container True (''['' @ [CHR 0x27] @ ''paid'' @ [CHR 0x27] @ '']'')]]\<rparr>"


section \<open>Order totals\<close>

text \<open>
  \<^verbatim>\<open>pd.to_numeric(..., errors="coerce")\<close> on one cell; \<open>None\<close> is NaN. The parser pandas
  applies to strings is passed in as \<open>sn\<close>.
\<close>

fun to_numeric_cell :: "(string \<Rightarrow> real option) \<Rightarrow> pyval \<Rightarrow> real option" where
  "to_numeric_cell sn PNone = None"
| "to_numeric_cell sn (PBool b) = Some (if b then 1 else 0)"
| "to_numeric_cell sn (PInt i) = Some (of_int i)"
| "to_numeric_cell sn (PFloat (Fl x)) = Some x"
| "to_numeric_cell sn (PFloat NaN) = None"
| "to_numeric_cell sn (PStr s) = sn s"

text \<open>\<^verbatim>\<open>df[c]\<close> as the list of its cells.\<close>

definition column :: "frame \<Rightarrow> string \<Rightarrow> pyval list" where
  "column df c = map (\<lambda>r. row_get r c) (recs df)"

text \<open>\<^verbatim>\<open>pd.to_numeric(df[c], errors="coerce").fillna(d)\<close>.\<close>

definition numeric_filled :: "(string \<Rightarrow> real option) \<Rightarrow> real \<Rightarrow> frame \<Rightarrow> string \<Rightarrow> real list" where
  "numeric_filled sn d df c =
     map (\<lambda>v. case to_numeric_cell sn v of None \<Rightarrow> d | Some x \<Rightarrow> x) (column df c)"

text \<open>
  \<^verbatim>\<open>calculate_order_total\<close>. When the price or the quantity column is absent,
  \<^verbatim>\<open>df.get(col, default)\<close> is the default, a plain number; \<^verbatim>\<open>pd.to_numeric\<close> hands a
  number back as it is, and the call of \<^verbatim>\<open>.fillna\<close> on it raises AttributeError. The new
  column is written as floats: the dtype of a numeric column is not modelled.
\<close>

definition calculate_order_total ::
  "(string \<Rightarrow> real option) \<Rightarrow> frame \<Rightarrow> string \<Rightarrow> string \<Rightarrow> string option \<Rightarrow> string option
     \<Rightarrow> string option \<Rightarrow> string \<Rightarrow> pyerr + frame" where
  "calculate_order_total sn df price_col qty_col discount_col tax_col shipping_col out_col =
     (if price_col \<notin> set (cols df) then Inl AttributeError
      else if qty_col \<notin> set (cols df) then Inl AttributeError
      else
        let price = numeric_filled sn 0 df price_col;
            qty = numeric_filled sn 1 df qty_col;
            total = map2 (*) price qty;
            total = (case discount_col of None \<Rightarrow> total
                     | Some c \<Rightarrow> if c \<noteq> [] \<and> c \<in> set (cols df)
                                 then map2 (-) total (numeric_filled sn 0 df c) else total);
            total = (case tax_col of None \<Rightarrow> total
                     | Some c \<Rightarrow> if c \<noteq> [] \<and> c \<in> set (cols df)
                                 then map2 (+) total (numeric_filled sn 0 df c) else total);
            total = (case shipping_col of None \<Rightarrow> total
                     | Some c \<Rightarrow> if c \<noteq> [] \<and> c \<in> set (cols df)
                                 then map2 (+) total (numeric_filled sn 0 df c) else total)
        in Inr (set_column out_col (map (\<lambda>x. PFloat (Fl x)) total) df))"

text \<open>A parser of plain decimal numbers, enough for the examples.\<close>

definition number_of_decimal :: "string \<Rightarrow> real option" where
  "number_of_decimal s = (case float_of_decimal s of Some (Fl x) \<Rightarrow> Some x | _ \<Rightarrow> None)"

section \<open>The claim about order totals, as stated\<close>

text \<open>
  The total of a row: price times quantity, minus discount, plus tax, plus shipping. A
  missing or unparseable quantity counts as 1, any other missing or unparseable input,
  and any adjustment whose column is not given or not in the frame, as 0.
\<close>

definition number_or :: "(string \<Rightarrow> real option) \<Rightarrow> real \<Rightarrow> pyval \<Rightarrow> real" where
  "number_or sn d v = (case to_numeric_cell sn v of None \<Rightarrow> d | Some x \<Rightarrow> x)"

definition adjustment :: "(string \<Rightarrow> real option) \<Rightarrow> frame \<Rightarrow> string option \<Rightarrow> row \<Rightarrow> real" where
  "adjustment sn df col r =
     (case col of None \<Rightarrow> 0
      | Some c \<Rightarrow> if c \<noteq> [] \<and> c \<in> set (cols df) then number_or sn 0 (row_get r c) else 0)"

definition claimed_order_total ::
  "(string \<Rightarrow> real option) \<Rightarrow> frame \<Rightarrow> string \<Rightarrow> string \<Rightarrow> string option \<Rightarrow> string option
     \<Rightarrow> string option \<Rightarrow> row \<Rightarrow> real" where
  "claimed_order_total sn df price_col qty_col discount_col tax_col shipping_col r =
     number_or sn 0 (row_get r price_col) * number_or sn 1 (row_get r qty_col)
       - adjustment sn df discount_col r + adjustment sn df tax_col r
       + adjustment sn df shipping_col r"

definition prices_and_quantities :: frame where
  "prices_and_quantities =
     \<lparr>cols = [''price'', ''quantity''],
      recs = [[''price'' \<mapsto> PInt 10, ''quantity'' \<mapsto> PInt 2],
              [''price'' \<mapsto> PInt 5, ''quantity'' \<mapsto> PInt 3]]\<rparr>"

definition prices_only :: frame where
  "prices_only =
     \<lparr>cols = [''price''], recs = [[''price'' \<mapsto> PInt 10], [''price'' \<mapsto> PInt 5]]\<rparr>"

section \<open>Customer lifetime value\<close>

text \<open>
  \<^verbatim>\<open>calculate_clv\<close> returns a frame with a fixed set of columns, one row for each group;
  its rows are modelled by a record. A timestamp is its number of nanoseconds since the
  epoch, \<open>None\<close> is NaT, and \<open>None\<close> in \<open>recency_days\<close> is the null value.
\<close>

record clv_row =
  customer_id :: pyval
  clv :: real
  total_orders :: nat
  avg_order_value :: real
  last_order_date :: "int option"
  recency_days :: "int option"
  frequency :: nat

definition day_ns :: int where
  "day_ns = 86400 * 1000000000"

text \<open>
  The keys of \<^verbatim>\<open>groupby\<close>: null keys are dropped, equal keys form one group, and the groups
  come sorted by key, numbers before strings.
\<close>

fun uniq_keys :: "pyval list \<Rightarrow> pyval list" where
  "uniq_keys [] = []"
| "uniq_keys (k # ks) = k # filter (\<lambda>x. \<not> py_eq x k) (uniq_keys ks)"

fun str_le :: "string \<Rightarrow> string \<Rightarrow> bool" where
  "str_le [] ys = True"
| "str_le (x # xs) [] = False"
| "str_le (x # xs) (y # ys) =
     ((of_char x :: nat) < of_char y \<or> (x = y \<and> str_le xs ys))"

definition key_le :: "pyval \<Rightarrow> pyval \<Rightarrow> bool" where
  "key_le a b =
     (case (num_of a, num_of b) of
        (Some x, Some y) \<Rightarrow> x \<le> y
      | (Some x, None) \<Rightarrow> True
      | (None, Some y) \<Rightarrow> False
      | (None, None) \<Rightarrow> str_le (the_str a) (the_str b))"

fun insert_key :: "pyval \<Rightarrow> pyval list \<Rightarrow> pyval list" where
  "insert_key k [] = [k]"
| "insert_key k (x # xs) = (if key_le k x then k # x # xs else x # insert_key k xs)"

definition sort_keys :: "pyval list \<Rightarrow> pyval list" where
  "sort_keys ks = foldr insert_key ks []"

definition group_keys :: "pyval list \<Rightarrow> pyval list" where
  "group_keys keys = sort_keys (uniq_keys (filter (\<lambda>k. \<not> isna k) keys))"

text \<open>The values of one group, in the order of the rows.\<close>

definition group_values :: "pyval list \<Rightarrow> 'a list \<Rightarrow> pyval \<Rightarrow> 'a list" where
  "group_values keys xs k = map snd (filter (\<lambda>kx. py_eq (fst kx) k) (zip keys xs))"

text \<open>The aggregation \<^verbatim>\<open>max\<close> on timestamps skips NaT and is NaT when nothing is left.\<close>

definition max_stamp :: "int option list \<Rightarrow> int option" where
  "max_stamp ts =
     (case List.map_filter (\<lambda>t. t) ts of [] \<Rightarrow> None | t # rest \<Rightarrow> Some (foldl max t rest))"

text \<open>
  \<^verbatim>\<open>calculate_clv\<close>. The parser of \<^verbatim>\<open>pd.to_datetime(..., errors="coerce")\<close> is passed in
  as \<open>dt\<close>, which gives the instant of a cell, and as \<open>tz_aware\<close>, which says whether the
  parsed column carries a time zone; \<open>now\<close> is the reading of the clock by
  \<^verbatim>\<open>pd.Timestamp.utcnow()\<close>. The raises, in the order of the source:
  \<^item> an absent total column: \<^verbatim>\<open>df.get(col, 0)\<close> is the number 0, and \<^verbatim>\<open>.fillna\<close> on it is
    an AttributeError;
  \<^item> an absent customer column: \<^verbatim>\<open>groupby\<close> raises KeyError;
  \<^item> a total column named \<^verbatim>\<open>order_date\<close> is overwritten by the dates, which cannot be
    summed, and an absent date column is a column of None, from which the timestamp
    \<^verbatim>\<open>now\<close> cannot be subtracted: TypeError;
  \<^item> \<^verbatim>\<open>now\<close> is always made naive, and subtracting a time zone aware column from it is a
    TypeError.
\<close>

definition calculate_clv ::
  "(string \<Rightarrow> real option) \<Rightarrow> (pyval \<Rightarrow> int option) \<Rightarrow> (pyval list \<Rightarrow> bool) \<Rightarrow> int \<Rightarrow> frame
     \<Rightarrow> string \<Rightarrow> string \<Rightarrow> pyerr + clv_row list" where
  "calculate_clv sn dt tz_aware now df_orders customer_id_col order_total_col =
     (if order_total_col \<notin> set (cols df_orders) then Inl AttributeError
      else if customer_id_col \<notin> set (cols df_orders) then Inl KeyError
      else if order_total_col = ''order_date'' then Inl TypeError
      else if ''order_date'' \<notin> set (cols df_orders) then Inl TypeError
      else if tz_aware (column df_orders ''order_date'') then Inl TypeError
      else
        let totals = numeric_filled sn 0 df_orders order_total_col;
            dates = map dt (column df_orders ''order_date'');
            keys = (if customer_id_col = order_total_col
                    then map (\<lambda>x. PFloat (Fl x)) totals
                    else if customer_id_col = ''order_date''
                    then map (\<lambda>d. case d of None \<Rightarrow> PNone | Some t \<Rightarrow> PInt t) dates
                    else column df_orders customer_id_col)
        in Inr (map (\<lambda>k.
                  let ts = group_values keys totals k;
                      last = max_stamp (group_values keys dates k)
                  in \<lparr>customer_id = k,
                      clv = sum_list ts,
                      total_orders = length ts,
                      avg_order_value = sum_list ts / real (length ts),
                      last_order_date = last,
                      recency_days = map_option (\<lambda>t. (now - t) div day_ns) last,
                      frequency = length ts\<rparr>)
                (group_keys keys)))"

text \<open>
  A parser of dates for the examples: four dates of the year 2020, the last one with a
  UTC offset, given by their day numbers.
\<close>

definition example_dt :: "pyval \<Rightarrow> int option" where
  "example_dt v =
     (if v = PStr ''2020-01-01'' then Some (18262 * day_ns)
      else if v = PStr ''2020-02-01'' then Some (18293 * day_ns)
      else if v = PStr ''2020-03-01'' then Some (18322 * day_ns)
      else if v = PStr ''2020-01-01T00:00:00+00:00'' then Some (18262 * day_ns)
      else None)"

definition example_tz_aware :: "pyval list \<Rightarrow> bool" where
  "example_tz_aware vs = list_ex (\<lambda>v. v = PStr ''2020-01-01T00:00:00+00:00'') vs"

definition clv_example :: frame where
  "clv_example =
     \<lparr>cols = [''customer_id'', ''order_total'', ''order_date''],
      recs = [[''customer_id'' \<mapsto> PStr ''c1'', ''order_total'' \<mapsto> PInt 10,
               ''order_date'' \<mapsto> PStr ''2020-01-01''],
              [''customer_id'' \<mapsto> PStr ''c1'', ''order_total'' \<mapsto> PInt 20,
               ''order_date'' \<mapsto> PStr ''2020-02-01''],
              [''customer_id'' \<mapsto> PStr ''c2'', ''order_total'' \<mapsto> PInt 5,
               ''order_date'' \<mapsto> PStr ''not a date'']]\<rparr>"

definition clv_offset_example :: frame where
  "clv_offset_example =
     \<lparr>cols = [''customer_id'', ''order_total'', ''order_date''],
      recs = [[''customer_id'' \<mapsto> PStr ''c1'', ''order_total'' \<mapsto> PInt 10,
               ''order_date'' \<mapsto> PStr ''2020-01-01T00:00:00+00:00'']]\<rparr>"

section \<open>The claim about customer lifetime value, as stated\<close>

text \<open>
  The orders of a customer, their totals with an unparseable total counted as 0, and the
  most recent of their parseable order dates.
\<close>

definition orders_of :: "frame \<Rightarrow> string \<Rightarrow> pyval \<Rightarrow> row list" where
  "orders_of df customer_key k = filter (\<lambda>r. py_eq (row_get r customer_key) k) (recs df)"

definition totals_of :: "(string \<Rightarrow> real option) \<Rightarrow> frame \<Rightarrow> string \<Rightarrow> string \<Rightarrow> pyval \<Rightarrow> real list" where
  "totals_of sn df customer_key total_key k =
     map (\<lambda>r. number_or sn 0 (row_get r total_key)) (orders_of df customer_key k)"

definition most_recent :: "(pyval \<Rightarrow> int option) \<Rightarrow> frame \<Rightarrow> string \<Rightarrow> pyval \<Rightarrow> int option" where
  "most_recent dt df customer_key k =
     (let parsed = {t. \<exists>r\<in>set (orders_of df customer_key k). dt (row_get r ''order_date'') = Some t}
      in if parsed = {} then None else Some (Max parsed))"

section \<open>The stages in a row\<close>

text \<open>
  The stages as \<^verbatim>\<open>run_transform\<close> of the DAG applies them to a batch of orders that is
  already normalized: the order total is derived when the frame has none, then come the
  fraud flags, the validation and the lifetime values, all with their default arguments.
  The frame that the validation hands on has the new column \<^verbatim>\<open>validation_issues\<close>, whose
  cells the lifetime values do not read. A failure of the lifetime values is caught there,
  so it is part of the result; a failure of an earlier stage is not.
\<close>

record stage_output =
  orders :: validated
  customers :: "pyerr + clv_row list"

definition run_stages ::
  "(string \<Rightarrow> real option) \<Rightarrow> (string \<Rightarrow> pyfloat option) \<Rightarrow> (pyfloat \<Rightarrow> string)
     \<Rightarrow> (pyval \<Rightarrow> int option) \<Rightarrow> (pyval list \<Rightarrow> bool) \<Rightarrow> int \<Rightarrow> frame \<Rightarrow> pyerr + stage_output" where
  "run_stages sn sf fr dt tz_aware now df_orders =
     (case (if ''order_total'' \<notin> set (cols df_orders)
            then calculate_order_total sn df_orders ''price'' ''quantity'' None None None
                   ''order_total''
            else Inr df_orders) of
        Inl e \<Rightarrow> Inl e
      | Inr df1 \<Rightarrow>
          let df2 = flag_fraud sf df1 1000 []
          in (case validate_orders fr (as_objects df2) None None of
                Inl e \<Rightarrow> Inl e
              | Inr v \<Rightarrow>
                  Inr \<lparr>orders = v,
                       customers = calculate_clv sn dt tz_aware now
                                     (df2\<lparr>cols := add_col (cols df2) ''validation_issues''\<rparr>)
                                     ''customer_id'' ''order_total''\<rparr>))"

text \<open>The output of the stages with the column \<^verbatim>\<open>recency_days\<close> blanked.\<close>

definition without_recency :: "pyerr + stage_output \<Rightarrow> pyerr + stage_output" where
  "without_recency out =
     map_sum (\<lambda>e. e)
       (\<lambda>s. s\<lparr>customers := map_sum (\<lambda>e. e) (map (\<lambda>r. r\<lparr>recency_days := None\<rparr>)) (customers s)\<rparr>)
       out"

text \<open>The column \<^verbatim>\<open>recency_days\<close> of the lifetime values, empty when a stage has raised.\<close>

definition recency_column :: "pyerr + stage_output \<Rightarrow> int option list" where
  "recency_column out =
     (case out of Inl e \<Rightarrow> []
      | Inr s \<Rightarrow> (case customers s of Inl e \<Rightarrow> [] | Inr rows \<Rightarrow> map recency_days rows))"

section \<open>The claim about the stages, as amended\<close>

text \<open>
  The orders that a run hands on, as a function of the batch alone: every row with its
  total (the one it has, or price times quantity when the batch has no column of
  totals), then its fraud score and its fraud flag under the default threshold and the
  built-in domains.
\<close>

definition claimed_orders ::
  "(string \<Rightarrow> real option) \<Rightarrow> (string \<Rightarrow> pyfloat option) \<Rightarrow> frame \<Rightarrow> frame" where
  "claimed_orders sn sf df =
     (let total = (\<lambda>r. if ''order_total'' \<in> set (cols df) then r
                       else r(''order_total'' \<mapsto> PFloat (Fl (claimed_order_total sn df
                                ''price'' ''quantity'' None None None r))));
          score = claimed_score sf 1000 (set DISPOSABLE_EMAIL_DOMAINS)
      in \<lparr>cols = add_col (add_col (add_col (add_col (cols df) ''order_total'') ''fraud_score'')
                     ''fraud_flag'') ''validation_issues'',
          recs = map (\<lambda>r. (total r)(''fraud_score'' \<mapsto> PInt (score (total r)),
                                     ''fraud_flag'' \<mapsto> PBool (4 \<le> score (total r))))
                   (recs df)\<rparr>)"

text \<open>
  The lifetime values at the clock reading \<open>now\<close>: one row for each customer of the
  orders, in which only \<open>recency_days\<close> depends on \<open>now\<close>.
\<close>

definition claimed_customers ::
  "(string \<Rightarrow> real option) \<Rightarrow> (pyval \<Rightarrow> int option) \<Rightarrow> int \<Rightarrow> frame \<Rightarrow> clv_row list" where
  "claimed_customers sn dt now df =
     map (\<lambda>k. \<lparr>customer_id = k,
               clv = sum_list (totals_of sn df ''customer_id'' ''order_total'' k),
               total_orders = length (orders_of df ''customer_id'' k),
               avg_order_value = sum_list (totals_of sn df ''customer_id'' ''order_total'' k)
                                   / real (length (orders_of df ''customer_id'' k)),
               last_order_date = most_recent dt df ''customer_id'' k,
               recency_days = map_option (\<lambda>t. (now - t) div day_ns)
                                (most_recent dt df ''customer_id'' k),
               frequency = length (orders_of df ''customer_id'' k)\<rparr>)
       (group_keys (column df ''customer_id''))"

definition claimed_output ::
  "(string \<Rightarrow> real option) \<Rightarrow> (string \<Rightarrow> pyfloat option) \<Rightarrow> (pyfloat \<Rightarrow> string)
     \<Rightarrow> (pyval \<Rightarrow> int option) \<Rightarrow> int \<Rightarrow> frame \<Rightarrow> stage_output" where
  "claimed_output sn sf fr dt now df =
     \<lparr>orders = \<lparr>vframe = as_objects (claimed_orders sn sf df),
                validation_issues =
                  map (claimed_issues fr DEFAULT_REQUIRED_FIELDS (set DEFAULT_ALLOWED_STATUSES))
                    (orecs (as_objects (claimed_orders sn sf df)))\<rparr>,
      customers = Inr (claimed_customers sn dt now (claimed_orders sn sf df))\<rparr>"

text \<open>
  A batch that is already normalized: it has its customers and its order dates, the
  dates without a time zone, and its totals or the prices and quantities they derive from.
\<close>

definition normalized_batch :: "(pyval list \<Rightarrow> bool) \<Rightarrow> frame \<Rightarrow> bool" where
  "normalized_batch tz_aware df =
     (''customer_id'' \<in> set (cols df) \<and> ''order_date'' \<in> set (cols df)
      \<and> \<not> tz_aware (column df ''order_date'')
      \<and> (''order_total'' \<in> set (cols df)
          \<or> (''price'' \<in> set (cols df) \<and> ''quantity'' \<in> set (cols df))))"

section \<open>Currency normalization\<close>

text \<open>\<^verbatim>\<open>s.strip()\<close>, and the characters that \<^verbatim>\<open>_CURRENCY_RE\<close> keeps.\<close>

definition strip :: "string \<Rightarrow> string" where
  "strip s = rev (dropWhile is_space (rev (dropWhile is_space s)))"

definition currency_char :: "char \<Rightarrow> bool" where
  "currency_char c = (is_digit c \<or> c = CHR ''.'' \<or> c = CHR ''-'')"

text \<open>
  The inner function \<^verbatim>\<open>_parse_amount\<close>; \<open>None\<close> is its result None. A number is
  converted by \<^verbatim>\<open>float\<close>; a numpy integer takes the way through its text and comes to
  the same number.
\<close>

fun parse_amount :: "pyval \<Rightarrow> real option" where
  "parse_amount PNone = None"
| "parse_amount (PFloat NaN) = None"
| "parse_amount (PBool b) = Some (if b then 1 else 0)"
| "parse_amount (PInt i) = Some (of_int i)"
| "parse_amount (PFloat (Fl x)) = Some x"
| "parse_amount (PStr v) =
     (let s = strip v;
          s = filter currency_char s
      in if s = [] then None
         else (case float_of_decimal s of Some (Fl x) \<Rightarrow> Some x | _ \<Rightarrow> None))"

text \<open>
  The rates. \<^verbatim>\<open>rate_map.get(cur, 1.0)\<close> finds a rate for a string cell only. When the
  caller gives no rates and the frame has the currency column, the code asks the rate
  service; \<open>live\<close> is the answer, \<open>None\<close> when the request fails. The service quotes rates
  from the target currency, so they are inverted, a rate of 0 counting as 1.
\<close>

definition rate_of :: "(string \<times> real) list \<Rightarrow> pyval \<Rightarrow> real" where
  "rate_of rate_map cur =
     (case cur of PStr c \<Rightarrow> (case map_of rate_map c of None \<Rightarrow> 1 | Some r \<Rightarrow> r) | _ \<Rightarrow> 1)"

definition has_column :: "frame \<Rightarrow> string option \<Rightarrow> bool" where
  "has_column df col = (case col of None \<Rightarrow> False | Some c \<Rightarrow> c \<noteq> [] \<and> c \<in> set (cols df))"

definition fetched_rate_map :: "string \<Rightarrow> (string \<times> real) list \<Rightarrow> (string \<times> real) list" where
  "fetched_rate_map target_currency rates =
     (target_currency, 1) # map (\<lambda>(cur, r). (cur, if r \<noteq> 0 then 1 / r else 1)) rates"

definition effective_rate_map ::
  "(string \<times> real) list option \<Rightarrow> frame \<Rightarrow> string option \<Rightarrow> (string \<times> real) list option \<Rightarrow> string
     \<Rightarrow> (string \<times> real) list" where
  "effective_rate_map live df currency_col rate_map target_currency =
     (let rate_map = (case rate_map of None \<Rightarrow> [] | Some m \<Rightarrow> m)
      in if rate_map = [] \<and> has_column df currency_col
         then (case live of None \<Rightarrow> rate_map
               | Some rates \<Rightarrow> fetched_rate_map target_currency rates)
         else rate_map)"

text \<open>A float cell of the new column; None becomes the null value of a float column.\<close>

definition float_cell :: "real option \<Rightarrow> pyval" where
  "float_cell x = (case x of None \<Rightarrow> PFloat NaN | Some a \<Rightarrow> PFloat (Fl a))"

text \<open>
  \<^verbatim>\<open>normalize_currency\<close>. An absent amount column is a KeyError. The row-wise
  \<^verbatim>\<open>df.apply(_to_target, axis=1)\<close> is the map over the rows; on a frame without rows
  the new column is empty.
\<close>

definition normalize_currency ::
  "(string \<times> real) list option \<Rightarrow> frame \<Rightarrow> string \<Rightarrow> string option \<Rightarrow> (string \<times> real) list option
     \<Rightarrow> string \<Rightarrow> pyerr + frame" where
  "normalize_currency live df amount_col currency_col rate_map target_currency =
     (let rate_map = effective_rate_map live df currency_col rate_map target_currency
      in if amount_col \<notin> set (cols df) then Inl KeyError
         else
           let parsed = map parse_amount (column df amount_col)
           in if has_column df currency_col
              then Inr (set_column (amount_col @ ''_normalized'')
                     (map (\<lambda>r. float_cell
                             (case parse_amount (row_get r amount_col) of None \<Rightarrow> None
                              | Some a \<Rightarrow>
                                  Some (a * rate_of rate_map (row_get r (the currency_col)))))
                        (recs df)) df)
              else Inr (set_column (amount_col @ ''_normalized'') (map float_cell parsed) df))"

section \<open>The claim about currency normalization, as stated\<close>

text \<open>
  The amount of a cell: a number passes through; of a string, the characters other than
  digits, dot and minus are dropped and the rest is read as a float; anything else, and a
  rest that is empty or no float, is null. The normalized amount is the amount times the
  rate of the currency of the row, 1 when the rates have none, or the amount itself when
  there is no currency column.
\<close>

definition claimed_amount :: "pyval \<Rightarrow> real option" where
  "claimed_amount v =
     (case num_of v of Some x \<Rightarrow> Some x
      | None \<Rightarrow> (case v of
                    PStr s \<Rightarrow> (case float_of_decimal (filter currency_char s) of
                                 Some (Fl x) \<Rightarrow> Some x | _ \<Rightarrow> None)
                  | _ \<Rightarrow> None))"

definition claimed_normalized ::
  "(string \<times> real) list \<Rightarrow> frame \<Rightarrow> string \<Rightarrow> string option \<Rightarrow> row \<Rightarrow> pyval" where
  "claimed_normalized rates df amount_col currency_col r =
     (case claimed_amount (row_get r amount_col) of
        None \<Rightarrow> PFloat NaN
      | Some a \<Rightarrow>
          (case currency_col of
             None \<Rightarrow> PFloat (Fl a)
           | Some c \<Rightarrow> if c \<noteq> [] \<and> c \<in> set (cols df)
                       then PFloat (Fl (a * (case row_get r c of
                                PStr cur \<Rightarrow> (case map_of rates cur of None \<Rightarrow> 1 | Some x \<Rightarrow> x)
                              | _ \<Rightarrow> 1)))
                       else PFloat (Fl a)))"

text \<open>The amounts of the test suite: 10 dollars and 20 euros, the euro sign in UTF-8.\<close>

definition currency_example :: frame where
  "currency_example =
     \<lparr>cols = [''amount'', ''currency''],
      recs = [[''amount'' \<mapsto> PStr ''$10.00'', ''currency'' \<mapsto> PStr ''USD''],
              [''amount'' \<mapsto> PStr (CHR 0xE2 # CHR 0x82 # CHR 0xAC # ''20.00''),
               ''currency'' \<mapsto> PStr ''EUR'']]\<rparr>"

definition example_rates :: "(string \<times> real) list" where
  "example_rates = [(''USD'', 1), (''EUR'', 11 / 10)]"

section \<open>Duplicates\<close>

text \<open>
  \<^verbatim>\<open>DataFrame.drop_duplicates\<close> compares the rows on the chosen columns, numbers by
  value. When one column is compared (and the labels of the frame are unique) pandas
  takes the column itself and looks its cells up in a hash table: there NaN is equal to
  NaN and None to None, but None and NaN are two keys. When several columns are compared
  each of them is factorized first, and there every null cell, None or NaN, gets the same
  code. A row is marked as a duplicate when an equal row comes before it
  (\<^verbatim>\<open>keep="first"\<close>), after it (\<^verbatim>\<open>keep="last"\<close>), or anywhere else (\<^verbatim>\<open>keep=False\<close>), and
  the rows that are not marked stay, in their order.
\<close>

definition dup_key :: "bool \<Rightarrow> pyval \<Rightarrow> pyval" where
  "dup_key single v =
     (if \<not> single \<and> isna v then PNone
      else (case num_of v of Some x \<Rightarrow> PFloat (Fl x) | None \<Rightarrow> v))"

definition single_column :: "frame \<Rightarrow> string list \<Rightarrow> bool" where
  "single_column df ks = (length ks = 1 \<and> distinct (cols df))"

definition row_key :: "bool \<Rightarrow> string list \<Rightarrow> row \<Rightarrow> pyval list" where
  "row_key single ks r = map (\<lambda>c. dup_key single (row_get r c)) ks"

definition duplicated_mask :: "pyval \<Rightarrow> 'k list \<Rightarrow> bool list" where
  "duplicated_mask keep ks =
     map (\<lambda>i. if keep = PStr ''first'' then ks ! i \<in> set (take i ks)
              else if keep = PStr ''last'' then ks ! i \<in> set (drop (Suc i) ks)
              else ks ! i \<in> set (take i ks) \<or> ks ! i \<in> set (drop (Suc i) ks))
       [0 ..< length ks]"

definition subset_columns :: "frame \<Rightarrow> string list option \<Rightarrow> string list" where
  "subset_columns df subset_keys = (case subset_keys of None \<Rightarrow> cols df | Some s \<Rightarrow> s)"

text \<open>
  A frame without rows or without columns is returned at once. Then a column of the
  subset that the frame does not have is a KeyError, an empty list of columns is a
  ValueError (nothing is left to unpack), and so is a \<^verbatim>\<open>keep\<close> other than the three
  policies.
\<close>

definition drop_duplicates :: "frame \<Rightarrow> string list option \<Rightarrow> pyval \<Rightarrow> pyerr + frame" where
  "drop_duplicates df subset_keys keep =
     (if recs df = [] \<or> cols df = [] then Inr df
      else
        let ks = subset_columns df subset_keys
        in if \<not> list_all (\<lambda>c. c \<in> set (cols df)) ks then Inl KeyError
           else if ks = [] then Inl ValueError
           else if \<not> (keep = PStr ''first'' \<or> keep = PStr ''last'' \<or> py_eq keep (PBool False))
           then Inl ValueError
           else Inr (df\<lparr>recs := map snd (filter (\<lambda>dr. \<not> fst dr)
                        (zip (duplicated_mask keep (map (row_key (single_column df ks) ks) (recs df)))
                           (recs df)))\<rparr>))"

definition remove_duplicates ::
  "frame \<Rightarrow> string list option \<Rightarrow> pyval \<Rightarrow> pyerr + (frame \<times> int)" where
  "remove_duplicates df subset_keys keep =
     (let rows_before = int (length (recs df))
      in case drop_duplicates df subset_keys keep of
           Inl e \<Rightarrow> Inl e
         | Inr cleaned \<Rightarrow>
             let removed = rows_before - int (length (recs cleaned))
             in Inr (cleaned, removed))"

text \<open>
  The rows that \<^verbatim>\<open>drop_duplicates\<close> compares: on the columns of the subset, all columns
  when the subset is left out.
\<close>

definition compared_keys :: "frame \<Rightarrow> string list option \<Rightarrow> pyval list list" where
  "compared_keys df subset_keys =
     (let ks = subset_columns df subset_keys
      in map (row_key (single_column df ks) ks) (recs df))"

text \<open>The frame of the test suite: two equal rows and a third one.\<close>

definition duplicates_example :: frame where
  "duplicates_example =
     \<lparr>cols = [''a'', ''b''],
      recs = [[''a'' \<mapsto> PInt 1, ''b'' \<mapsto> PStr ''x''],
              [''a'' \<mapsto> PInt 1, ''b'' \<mapsto> PStr ''x''],
              [''a'' \<mapsto> PInt 2, ''b'' \<mapsto> PStr ''y'']]\<rparr>"

text \<open>
  A frame of two rows and no column (\<^verbatim>\<open>pd.DataFrame(index=[0, 1])\<close>), and a column that
  holds None and NaN (\<^verbatim>\<open>pd.DataFrame({"x": [None, float("nan")]}, dtype=object)\<close>).
\<close>

definition no_columns_example :: frame where
  "no_columns_example = \<lparr>cols = [], recs = [Map.empty, Map.empty]\<rparr>"

definition none_nan_example :: frame where
  "none_nan_example =
     \<lparr>cols = [''x''], recs = [[''x'' \<mapsto> PNone], [''x'' \<mapsto> PFloat NaN]]\<rparr>"

section \<open>Imputation\<close>

text \<open>
  \<^verbatim>\<open>impute_missing\<close> branches on the dtype of each column, so here a frame is the list of
  its columns, each with its dtype: a numeric column (null is NaN, here \<open>None\<close>), a
  datetime column (null is NaT, here \<open>None\<close>; a timestamp is its number of nanoseconds
  since the epoch), or an object column of cells.
\<close>

datatype series = Numeric "real option list" | Datetime "int option list" | Object "pyval list"

type_synonym table = "(string \<times> series) list"

text \<open>
  \<^verbatim>\<open>fillna(method="ffill")\<close> carries the last valid value forward and leaves the nulls
  before the first valid value; \<^verbatim>\<open>"bfill"\<close> is the same from the end.
\<close>

fun ffill_from :: "('a \<Rightarrow> bool) \<Rightarrow> 'a option \<Rightarrow> 'a list \<Rightarrow> 'a list" where
  "ffill_from null prev [] = []"
| "ffill_from null prev (x # xs) =
     (if null x then (case prev of None \<Rightarrow> x | Some v \<Rightarrow> v) # ffill_from null prev xs
      else x # ffill_from null (Some x) xs)"

definition ffill :: "('a \<Rightarrow> bool) \<Rightarrow> 'a list \<Rightarrow> 'a list" where
  "ffill null xs = ffill_from null None xs"

definition bfill :: "('a \<Rightarrow> bool) \<Rightarrow> 'a list \<Rightarrow> 'a list" where
  "bfill null xs = rev (ffill null (rev xs))"

definition fillna_method :: "string \<Rightarrow> ('a \<Rightarrow> bool) \<Rightarrow> 'a list \<Rightarrow> 'a list" where
  "fillna_method method null xs = (if method = ''ffill'' then ffill null xs else bfill null xs)"

definition fillna_value :: "('a \<Rightarrow> bool) \<Rightarrow> 'a \<Rightarrow> 'a list \<Rightarrow> 'a list" where
  "fillna_value null v xs = map (\<lambda>x. if null x then v else x) xs"

definition is_none :: "'a option \<Rightarrow> bool" where
  "is_none x = (x = None)"

text \<open>Median and mean skip the nulls and are NaN, here \<open>None\<close>, when nothing is left.\<close>

definition valid_values :: "'a option list \<Rightarrow> 'a list" where
  "valid_values xs = List.map_filter (\<lambda>x. x) xs"

definition median :: "real option list \<Rightarrow> real option" where
  "median xs =
     (let s = sort (valid_values xs); n = length s
      in if n = 0 then None
         else if odd n then Some (s ! (n div 2))
         else Some ((s ! (n div 2 - 1) + s ! (n div 2)) / 2))"

definition mean :: "real option list \<Rightarrow> real option" where
  "mean xs =
     (let vs = valid_values xs
      in if vs = [] then None else Some (sum_list vs / real (length vs)))"

text \<open>
  The numeric branch of the loop. A fill value that is NaN, here \<open>None\<close>, is replaced
  by 0 before the column is filled.
\<close>

definition fill_numeric :: "real option \<Rightarrow> real option list \<Rightarrow> real option list" where
  "fill_numeric val xs =
     (let val = (case val of None \<Rightarrow> 0 | Some v \<Rightarrow> v)
      in fillna_value is_none (Some val) xs)"

definition impute_numeric :: "string \<Rightarrow> real option list \<Rightarrow> real option list" where
  "impute_numeric numeric_strategy xs =
     (if numeric_strategy = ''median'' then fill_numeric (median xs) xs
      else if numeric_strategy = ''mean'' then fill_numeric (mean xs) xs
      else if numeric_strategy = ''zero'' then fill_numeric (Some 0) xs
      else if numeric_strategy = ''ffill'' \<or> numeric_strategy = ''bfill''
      then fillna_method numeric_strategy is_none xs
      else fill_numeric (Some 0) xs)"

text \<open>The datetime branch, after the column has been parsed.\<close>

definition impute_datetime :: "string \<Rightarrow> int option list \<Rightarrow> int option list" where
  "impute_datetime datetime_strategy xs =
     (if datetime_strategy = ''ffill'' \<or> datetime_strategy = ''bfill''
      then fillna_method datetime_strategy is_none xs
      else if datetime_strategy = ''epoch'' then fillna_value is_none (Some 0) xs
      else xs)"

text \<open>
  \<^verbatim>\<open>_looks_like_datetime_series\<close>: of the first 20 cells that are not null, read as
  text, at least a quarter and at least one hold a minus, a colon or the letter T.
\<close>

definition looks_like_datetime_series :: "(pyfloat \<Rightarrow> string) \<Rightarrow> pyval list \<Rightarrow> bool" where
  "looks_like_datetime_series fr s =
     (let sample = take 20 (map (py_str fr) (filter (\<lambda>v. \<not> isna v) s))
      in if sample = [] then False
         else
           let n_matches = length (filter (\<lambda>v. list_ex (\<lambda>c. c \<in> set v) ''-:T'') sample)
           in max 1 (length sample div 4) \<le> n_matches)"

text \<open>
  \<^verbatim>\<open>Series.mode(dropna=True)\<close>: the most frequent cells that are not null, sorted; the
  code takes the first of them.
\<close>

definition mode_values :: "pyval list \<Rightarrow> pyval list" where
  "mode_values s =
     (let vs = filter (\<lambda>v. \<not> isna v) s;
          ks = uniq_keys vs;
          freq = (\<lambda>k. length (filter (\<lambda>v. py_eq v k) vs))
      in sort_keys (filter (\<lambda>k. list_all (\<lambda>k'. freq k' \<le> freq k) ks) ks))"

text \<open>The branch for the other columns.\<close>

definition impute_categorical :: "string \<Rightarrow> pyval list \<Rightarrow> pyval list" where
  "impute_categorical categorical_strategy s =
     (if categorical_strategy = ''mode''
      then (let mode_val = mode_values s;
                val = (if 0 < length mode_val then hd mode_val else PStr '''')
            in fillna_value isna val s)
      else if categorical_strategy = ''unknown'' then fillna_value isna (PStr ''<unknown>'') s
      else if categorical_strategy = ''ffill'' \<or> categorical_strategy = ''bfill''
      then fillna_method categorical_strategy isna s
      else fillna_value isna (PStr '''') s)"

text \<open>
  One pass of the loop over the columns, for a column without an explicit fill value.
  The parser of \<^verbatim>\<open>pd.to_datetime(..., errors="coerce")\<close> is passed in as \<open>dt\<close>.
\<close>

definition impute_series ::
  "(pyfloat \<Rightarrow> string) \<Rightarrow> (pyval \<Rightarrow> int option) \<Rightarrow> string \<Rightarrow> string \<Rightarrow> string \<Rightarrow> series \<Rightarrow> series" where
  "impute_series fr dt numeric_strategy categorical_strategy datetime_strategy s =
     (case s of
        Numeric xs \<Rightarrow> Numeric (impute_numeric numeric_strategy xs)
      | Datetime ts \<Rightarrow> Datetime (impute_datetime datetime_strategy ts)
      | Object cells \<Rightarrow>
          if looks_like_datetime_series fr cells
          then Datetime (impute_datetime datetime_strategy (map dt cells))
          else Object (impute_categorical categorical_strategy cells))"

text \<open>
  \<^verbatim>\<open>impute_missing\<close>. For a column with an explicit fill value the code calls
  \<^verbatim>\<open>fillna\<close> with a value of the caller; what pandas does with a value that does not fit
  the dtype is not modelled, so that call is passed in as \<open>fillna\<close>.
\<close>

definition impute_missing ::
  "(pyfloat \<Rightarrow> string) \<Rightarrow> (pyval \<Rightarrow> int option) \<Rightarrow> (series \<Rightarrow> pyval \<Rightarrow> series) \<Rightarrow> table
     \<Rightarrow> string \<Rightarrow> string \<Rightarrow> string \<Rightarrow> (string \<times> pyval) list option \<Rightarrow> table" where
  "impute_missing fr dt fillna df numeric_strategy categorical_strategy datetime_strategy
     fill_values =
     (let fill_values = (case fill_values of None \<Rightarrow> [] | Some m \<Rightarrow> m)
      in map (\<lambda>(col, s).
               case map_of fill_values col of
                 Some v \<Rightarrow> (col, fillna s v)
               | None \<Rightarrow> (col, impute_series fr dt numeric_strategy categorical_strategy
                                datetime_strategy s))
           df)"

section \<open>The claim about imputation, as stated\<close>

text \<open>A column has a null, or a value that is not null.\<close>

definition has_null :: "series \<Rightarrow> bool" where
  "has_null s =
     (case s of Numeric xs \<Rightarrow> list_ex is_none xs
      | Datetime ts \<Rightarrow> list_ex is_none ts
      | Object cells \<Rightarrow> list_ex isna cells)"

definition has_value :: "series \<Rightarrow> bool" where
  "has_value s =
     (case s of Numeric xs \<Rightarrow> list_ex (\<lambda>x. \<not> is_none x) xs
      | Datetime ts \<Rightarrow> list_ex (\<lambda>x. \<not> is_none x) ts
      | Object cells \<Rightarrow> list_ex (\<lambda>x. \<not> isna x) cells)"

text \<open>
  The nulls of a column, position by position, and the nulls that the claim, as amended,
  says are left of them: with \<^verbatim>\<open>ffill\<close> those before the first value that is not null,
  with \<^verbatim>\<open>bfill\<close> those after the last one, none with a strategy that fills by a value,
  and all of them otherwise. Every numeric and every categorical strategy other than
  \<^verbatim>\<open>ffill\<close> and \<^verbatim>\<open>bfill\<close> fills by a value; of the datetime strategies only \<^verbatim>\<open>epoch\<close>
  does, and the nulls of a column of date-like text are the cells that do not parse.
\<close>

definition null_mask :: "series \<Rightarrow> bool list" where
  "null_mask s =
     (case s of Numeric xs \<Rightarrow> map is_none xs
      | Datetime ts \<Rightarrow> map is_none ts
      | Object cells \<Rightarrow> map isna cells)"

definition leading_nulls :: "bool list \<Rightarrow> bool list" where
  "leading_nulls ms =
     takeWhile (\<lambda>b. b) ms @ replicate (length (dropWhile (\<lambda>b. b) ms)) False"

definition trailing_nulls :: "bool list \<Rightarrow> bool list" where
  "trailing_nulls ms = rev (leading_nulls (rev ms))"

definition nulls_left :: "bool \<Rightarrow> string \<Rightarrow> bool list \<Rightarrow> bool list" where
  "nulls_left by_value strategy ms =
     (if strategy = ''ffill'' then leading_nulls ms
      else if strategy = ''bfill'' then trailing_nulls ms
      else if by_value then replicate (length ms) False
      else ms)"

definition claimed_nulls ::
  "(pyfloat \<Rightarrow> string) \<Rightarrow> (pyval \<Rightarrow> int option) \<Rightarrow> string \<Rightarrow> string \<Rightarrow> string \<Rightarrow> series
     \<Rightarrow> bool list" where
  "claimed_nulls fr dt numeric_strategy categorical_strategy datetime_strategy s =
     (case s of
        Numeric xs \<Rightarrow> nulls_left True numeric_strategy (map is_none xs)
      | Datetime ts \<Rightarrow>
          nulls_left (datetime_strategy = ''epoch'') datetime_strategy (map is_none ts)
      | Object cells \<Rightarrow>
          if looks_like_datetime_series fr cells
          then nulls_left (datetime_strategy = ''epoch'') datetime_strategy
                 (map (\<lambda>c. is_none (dt c)) cells)
          else nulls_left True categorical_strategy (map isna cells))"

text \<open>The strategy that applies to a column fills by a value.\<close>

definition fills_by_value ::
  "(pyfloat \<Rightarrow> string) \<Rightarrow> string \<Rightarrow> string \<Rightarrow> string \<Rightarrow> series \<Rightarrow> bool" where
  "fills_by_value fr numeric_strategy categorical_strategy datetime_strategy s =
     (case s of
        Numeric xs \<Rightarrow> numeric_strategy \<noteq> ''ffill'' \<and> numeric_strategy \<noteq> ''bfill''
      | Datetime ts \<Rightarrow> datetime_strategy = ''epoch''
      | Object cells \<Rightarrow>
          if looks_like_datetime_series fr cells then datetime_strategy = ''epoch''
          else categorical_strategy \<noteq> ''ffill'' \<and> categorical_strategy \<noteq> ''bfill'')"

text \<open>The explicit fill values of a call.\<close>

definition explicit_fill :: "(string \<times> pyval) list option \<Rightarrow> string \<Rightarrow> pyval option" where
  "explicit_fill fill_values col = map_of (case fill_values of None \<Rightarrow> [] | Some m \<Rightarrow> m) col"

text \<open>A fill of the object columns by a value, for the examples.\<close>

definition fill_cells :: "series \<Rightarrow> pyval \<Rightarrow> series" where
  "fill_cells s v = (case s of Object cells \<Rightarrow> Object (fillna_value isna v cells) | _ \<Rightarrow> s)"

definition imputation_example :: table where
  "imputation_example =
     [(''num'', Numeric [Some 1, None, Some 3]),
      (''cat'', Object [PStr ''a'', PNone, PStr ''a'']),
      (''empty'', Numeric [None, None])]"

definition leading_null_example :: table where
  "leading_null_example = [(''num'', Numeric [None, Some 1])]"

section \<open>Fraud scoring: the score of a row\<close>

lemma length_split_on: "length (split_on c s) = Suc (count_list s c)"
  by (induction s) (auto split: list.splits)

lemma email_domain_claimed:
  "(case email_domain e of None \<Rightarrow> a | Some d \<Rightarrow> if d \<noteq> [] \<and> d \<in> S then a + 3 else a)
   = a + (case claimed_domain e of None \<Rightarrow> (0::int) | Some d \<Rightarrow> if d \<in> S then 3 else 0)"
  by (cases e) (auto simp: email_domain_def claimed_domain_def is_str_def the_str_def
      length_split_on lower_def Let_def)

lemma total_claimed:
  "0 < th \<Longrightarrow> fl_ge (order_total_value sf ot) th
     = (case claimed_total sf ot of None \<Rightarrow> False | Some x \<Rightarrow> fl_ge x th)"
  by (auto simp: order_total_value_def claimed_total_def isna_def split: option.splits)

lemma row_score_claimed:
  "0 < th \<Longrightarrow> row_score sf th S r = claimed_score sf th S r"
  unfolding row_score_def claimed_score_def Let_def
  by (simp add: email_domain_claimed total_claimed split: option.splits)

lemma map2_map_map: "map2 f (map h xs) (map g xs) = map (\<lambda>x. f (h x) (g x)) xs"
  by (induction xs) auto

lemma recs_flag_fraud:
  "recs (flag_fraud sf df th extra) =
     map (\<lambda>r. r(''fraud_score'' \<mapsto> PInt (row_score sf th (set extra \<union> set DISPOSABLE_EMAIL_DOMAINS) r),
                ''fraud_flag'' \<mapsto> PBool (4 \<le> row_score sf th (set extra \<union> set DISPOSABLE_EMAIL_DOMAINS) r)))
       (recs df)"
proof -
  let ?S = "set extra \<union> set DISPOSABLE_EMAIL_DOMAINS"
  have 1: "recs (set_column ''fraud_score'' (map PInt (map (row_score sf th ?S) (recs df))) df)
      = map (\<lambda>r. r(''fraud_score'' \<mapsto> PInt (row_score sf th ?S r))) (recs df)"
    using map2_map_map[of "\<lambda>r v. r(''fraud_score'' \<mapsto> v)" "\<lambda>r. r" "recs df"
        "\<lambda>r. PInt (row_score sf th ?S r)"]
    by (simp add: set_column_def o_def)
  show ?thesis
    unfolding flag_fraud_def Let_def
    using map2_map_map[of "\<lambda>r v. r(''fraud_flag'' \<mapsto> v)"
        "\<lambda>r. r(''fraud_score'' \<mapsto> PInt (row_score sf th ?S r))"
        "recs df" "\<lambda>r. PBool (4 \<le> row_score sf th ?S r)"] 1
    by (simp add: set_column_def o_def)
qed

text \<open>
  C1, as amended. For a positive threshold, \<^verbatim>\<open>flag_fraud\<close> gives every row the score of
  the specification: 3 for an order total that parses to a float at or above the
  threshold, 2 for two truthy countries that differ, 3 for an email domain in the
  suspicious set, 1 for a falsy or missing billing name or address; and the flag is true
  exactly when the score is at least 4. A missing or unparseable total counts as 0, which
  stays below a positive threshold.
\<close>

theorem flag_fraud_score:
  assumes "0 < th"
  shows "recs (flag_fraud sf df th extra) =
     map (\<lambda>r. r(''fraud_score'' \<mapsto>
                  PInt (claimed_score sf th (set extra \<union> set DISPOSABLE_EMAIL_DOMAINS) r),
                ''fraud_flag'' \<mapsto>
                  PBool (4 \<le> claimed_score sf th (set extra \<union> set DISPOSABLE_EMAIL_DOMAINS) r)))
       (recs df)"
  using assms by (simp add: recs_flag_fraud row_score_claimed)

text \<open>
  The two orders of the specification at threshold 1000: the order with nothing but a
  total of 2000 scores 4 and is flagged, the order of 50 with matching countries and an
  ordinary email scores 1 and is not.
\<close>

theorem flag_fraud_score_witness:
  "(0::real) < 1000 \<and>
   map (\<lambda>r. (r ''fraud_score'', r ''fraud_flag''))
     (recs (flag_fraud float_of_decimal fraud_example 1000 []))
   = [(Some (PInt 4), Some (PBool True)), (Some (PInt 1), Some (PBool False))]"
proof -
  have h: "(0::real) < 1000" by simp
  show ?thesis
    using h flag_fraud_score [OF h, of float_of_decimal fraud_example "[]"]
    by (simp add: fraud_example_def claimed_score_def claimed_total_def isna_def row_get_def
        claimed_domain_def DISPOSABLE_EMAIL_DOMAINS_def lower_def lower_char_def)
qed

text \<open>
  C1 as stated fails at a threshold of 0: an order without a total counts as 0, which
  reaches the threshold, so the code scores 4 and flags the order, where the claim has
  the first rule never fire and gives the score 1.
\<close>

theorem flag_fraud_score_counterexample:
  "recs (flag_fraud float_of_decimal bare_order 0 []) =
     [[''order_id'' \<mapsto> PStr ''o1'', ''fraud_score'' \<mapsto> PInt 4, ''fraud_flag'' \<mapsto> PBool True]]
   \<and> claimed_score float_of_decimal 0 (set DISPOSABLE_EMAIL_DOMAINS)
        [''order_id'' \<mapsto> PStr ''o1''] = 1"
  by (simp add: recs_flag_fraud bare_order_def row_score_def order_total_value_def row_get_def
      email_domain_def claimed_score_def claimed_total_def isna_def claimed_domain_def)

lemma lower_Evil: "lower ''Evil.COM'' = ''evil.com''"
  by code_simp

text \<open>
  C8. The code lowers the domain of the email and looks it up in the set as supplied, so
  a supplied domain with a capital letter matches no email. With the domain
  \<^verbatim>\<open>Evil.COM\<close> supplied, the email \<^verbatim>\<open>x@Evil.COM\<close> satisfies the rule of the claim and
  still scores 0.
\<close>

theorem disposable_rule_mixed_case:
  "claimed_disposable [''Evil.COM''] (PStr ''x@Evil.COM'') \<and>
   recs (flag_fraud float_of_decimal mixed_case_order 1000 [''Evil.COM'']) =
     [[''email'' \<mapsto> PStr ''x@Evil.COM'', ''billing_name'' \<mapsto> PStr ''n'',
       ''billing_address'' \<mapsto> PStr ''a'', ''fraud_score'' \<mapsto> PInt 0,
       ''fraud_flag'' \<mapsto> PBool False]]"
  by (simp add: claimed_disposable_def recs_flag_fraud mixed_case_order_def row_score_def
      order_total_value_def row_get_def email_domain_def is_str_def the_str_def lower_Evil
      DISPOSABLE_EMAIL_DOMAINS_def)

section \<open>Validation: the pattern of an email\<close>

lemma takeWhile_all: "list_all P (takeWhile P xs)"
  by (induction xs) auto

lemma takeWhile_append_stop:
  "list_all P a \<Longrightarrow> \<not> P x \<Longrightarrow> takeWhile P (a @ x # ys) = a"
  by (induction a) auto

lemma dropWhile_append_stop:
  "list_all P a \<Longrightarrow> \<not> P x \<Longrightarrow> dropWhile P (a @ x # ys) = x # ys"
  by (induction a) auto

lemma takeWhile_append_all:
  "list_all P a \<Longrightarrow> takeWhile P (a @ ys) = a @ takeWhile P ys"
  by (induction a) auto

lemma email_char_dot: "email_char CHR ''.''"
  by (simp add: email_char_def is_space_def)

lemma email_char_at: "\<not> email_char CHR ''@''"
  by (simp add: email_char_def)

lemma pattern_imp_match:
  assumes "claimed_email_pattern s"
  shows "email_re_match s"
proof -
  from assms obtain a b c rest where
    s: "s = a @ ''@'' @ b @ ''.'' @ c @ rest" and ne: "a \<noteq> []" "b \<noteq> []" "c \<noteq> []"
    and ok: "list_all email_char a" "list_all email_char b" "list_all email_char c"
    unfolding claimed_email_pattern_def by blast
  have tw: "takeWhile email_char s = a" and dw: "dropWhile email_char s = CHR ''@'' # (b @ ''.'' @ c @ rest)"
    using ok(1) email_char_at by (simp_all add: s takeWhile_append_stop dropWhile_append_stop)
  let ?t = "takeWhile email_char (b @ ''.'' @ c @ rest)"
  have "list_all email_char (b @ ''.'' @ c)"
    using ok email_char_dot by simp
  then have t: "?t = (b @ ''.'' @ c) @ takeWhile email_char rest"
    using takeWhile_append_all[of email_char "b @ ''.'' @ c" rest] by simp
  have i1: "1 \<le> length b" using ne by (cases b) auto
  have i2: "length b < length ?t - 1" using ne t by (cases c) auto
  have i3: "?t ! length b = CHR ''.''" by (subst t) (simp add: nth_append)
  have "list_ex (\<lambda>i. ?t ! i = CHR ''.'') [1 ..< length ?t - 1]"
    unfolding list_ex_iff using i1 i2 i3 by (intro bexI[of _ "length b"]) auto
  then show ?thesis
    using ne(1) by (simp add: email_re_match_def tw dw Let_def)
qed

lemma match_imp_pattern:
  assumes "email_re_match s"
  shows "claimed_email_pattern s"
proof -
  let ?a = "takeWhile email_char s"
  from assms have a: "?a \<noteq> []" by (simp add: email_re_match_def Let_def)
  from assms obtain after where dw: "dropWhile email_char s = CHR ''@'' # after"
    and ex: "list_ex (\<lambda>i. takeWhile email_char after ! i = CHR ''.'')
               [1 ..< length (takeWhile email_char after) - 1]"
    by (auto simp: email_re_match_def Let_def split: list.splits)
  let ?t = "takeWhile email_char after"
  from ex obtain i where i: "1 \<le> i" "i < length ?t - 1" "?t ! i = CHR ''.''"
    by (auto simp: list_ex_iff)
  have t: "?t = take i ?t @ ''.'' @ drop (Suc i) ?t"
    using i id_take_nth_drop[of i ?t] by simp
  have s: "s = ?a @ ''@'' @ take i ?t @ ''.'' @ drop (Suc i) ?t @ dropWhile email_char after"
  proof -
    have "s = ?a @ dropWhile email_char s" by simp
    also have "\<dots> = ?a @ ''@'' @ (?t @ dropWhile email_char after)" by (simp add: dw)
    also have "\<dots> = ?a @ ''@'' @ ((take i ?t @ ''.'' @ drop (Suc i) ?t) @ dropWhile email_char after)"
      using t by simp
    finally show ?thesis by simp
  qed
  have allt: "list_all email_char ?t" by (rule takeWhile_all)
  have b: "list_all email_char (take i ?t)" "list_all email_char (drop (Suc i) ?t)"
    using allt by (auto simp: list_all_iff dest: in_set_takeD in_set_dropD)
  have ne: "take i ?t \<noteq> []" "drop (Suc i) ?t \<noteq> []" using i by auto
  show ?thesis
    unfolding claimed_email_pattern_def
    using s a ne b takeWhile_all[of email_char s] by blast
qed

lemma email_re_match_pattern: "email_re_match s = claimed_email_pattern s"
  using pattern_imp_match match_imp_pattern by blast

section \<open>Validation: the issues of a row\<close>

lemma py_eq_zero: "py_eq v (PInt 0) = (num_of v = Some 0)"
  by (cases v rule: num_of.cases) auto

lemma missing_test_claimed:
  "missing_test c = (if c = NA then Inl TypeError else Inr (claimed_missing c))"
proof (cases c)
  case (Scalar v)
  have "(\<not> truthy v \<and> \<not> py_eq v (PInt 0)) = claimed_missing (Scalar v)"
    by (simp only: py_eq_zero claimed_missing_def cell_truthy_def number_zero_def cell.case)
  then show ?thesis using Scalar by (simp del: py_eq.simps)
qed (simp_all add: claimed_missing_def cell_truthy_def number_zero_def)

lemma missing_fields_claimed:
  "missing_fields r issues fs =
     (if list_ex (\<lambda>f. cell_get r f = NA) fs then Inl TypeError
      else Inr (issues @ map (\<lambda>f. ''missing_'' @ f)
                           (filter (\<lambda>f. claimed_missing (cell_get r f)) fs)))"
  by (induction fs arbitrary: issues) (simp_all add: missing_test_claimed)

lemma status_test_claimed:
  "status_test allowed c =
     (if c = NA \<or> (\<exists>text. c = Container True text) then Inl TypeError
      else Inr (cell_truthy c \<and> \<not> in_allowed c allowed))"
proof (cases c)
  case (Scalar v)
  then show ?thesis
    by (cases v) (simp_all add: cell_truthy_def in_allowed_def status_in_def)
qed (auto simp: cell_truthy_def in_allowed_def)

lemma email_test_claimed:
  "email_test fr c =
     (if c = NA then Inl TypeError
      else Inr (cell_truthy c \<and> \<not> claimed_email_pattern (cell_str fr c)))"
  by (cases c) (simp_all add: cell_truthy_def email_re_match_pattern)

lemma row_issues_claimed:
  "row_issues fr required allowed r =
     (if claimed_raises required r then Inl TypeError
      else Inr (claimed_issues fr required allowed r))"
proof (cases "list_ex (\<lambda>f. cell_get r f = NA) required")
  case True
  then show ?thesis
    by (simp add: row_issues_def missing_fields_claimed claimed_raises_def)
next
  case no_na: False
  show ?thesis
  proof (cases "r ''status''")
    case None
    show ?thesis
    proof (cases "r ''email''")
      case e: None
      show ?thesis
        using no_na None e
        by (simp add: row_issues_def missing_fields_claimed claimed_raises_def
            claimed_issues_def cell_get_def email_test_claimed cell_truthy_def Let_def)
    next
      case e: (Some c)
      show ?thesis
        using no_na None e
        by (simp add: row_issues_def missing_fields_claimed claimed_raises_def
            claimed_issues_def cell_get_def email_test_claimed Let_def)
    qed
  next
    case (Some st)
    have raises: "(case Some st of Some NA \<Rightarrow> True | Some (Container nonempty text) \<Rightarrow> nonempty
          | _ \<Rightarrow> False) = (st = NA \<or> (\<exists>text. st = Container True text))"
      by (cases st) auto
    show ?thesis
    proof (cases "r ''email''")
      case e: None
      show ?thesis
        using no_na Some e raises
        by (simp add: row_issues_def missing_fields_claimed claimed_raises_def
            claimed_issues_def cell_get_def status_test_claimed email_test_claimed
            cell_truthy_def Let_def)
    next
      case e: (Some c)
      show ?thesis
        using no_na Some e raises
        by (simp add: row_issues_def missing_fields_claimed claimed_raises_def
            claimed_issues_def cell_get_def status_test_claimed email_test_claimed Let_def)
    qed
  qed
qed

lemma each_row_claimed:
  assumes "\<And>r. f r = (if P r then Inl TypeError else Inr (g r))"
  shows "each_row f rs = (if list_ex P rs then Inl TypeError else Inr (map g rs))"
  by (induction rs) (simp_all add: assms)

lemma validate_orders_claimed:
  "validate_orders fr df req al =
     (if list_ex (claimed_raises (or_default req DEFAULT_REQUIRED_FIELDS)) (orecs df)
      then Inl TypeError
      else Inr \<lparr>vframe = df\<lparr>ocols := add_col (ocols df) ''validation_issues''\<rparr>,
                validation_issues =
                  map (claimed_issues fr (or_default req DEFAULT_REQUIRED_FIELDS)
                         (set (or_default al DEFAULT_ALLOWED_STATUSES))) (orecs df)\<rparr>)"
  using each_row_claimed[of "row_issues fr (or_default req DEFAULT_REQUIRED_FIELDS)
        (set (or_default al DEFAULT_ALLOWED_STATUSES))"
      "claimed_raises (or_default req DEFAULT_REQUIRED_FIELDS)"
      "claimed_issues fr (or_default req DEFAULT_REQUIRED_FIELDS)
        (set (or_default al DEFAULT_ALLOWED_STATUSES))" "orecs df"]
  by (simp add: validate_orders_def Let_def row_issues_claimed)


lemma scalars_never_raise:
  "\<not> list_ex (claimed_raises required) (orecs (as_objects df))"
  by (auto simp: as_objects_def claimed_raises_def list_ex_iff cell_get_def
      split: option.splits cell.splits)


lemma example_emails:
  "\<not> claimed_email_pattern ''nobody''" "claimed_email_pattern ''ok@example.com''"
  by (simp_all add: email_re_match_pattern [symmetric] email_re_match_def email_char_def
      is_space_def)

lemma validation_example_issues:
  "validate_orders float_text validation_example None None
     = Inr \<lparr>vframe = validation_example\<lparr>ocols := ocols validation_example @ [''validation_issues'']\<rparr>,
            validation_issues =
              [[''missing_order_id'', ''invalid_status:shipped'', ''invalid_email''], [], []]\<rparr>"
  by (simp add: validate_orders_claimed validation_example_def or_default_def
      DEFAULT_REQUIRED_FIELDS_def DEFAULT_ALLOWED_STATUSES_def claimed_raises_def
      claimed_issues_def claimed_missing_def cell_truthy_def number_zero_def cell_get_def
      in_allowed_def add_col_def example_emails)



text \<open>The same for an order whose status is a list: it cannot be looked up in a set.\<close>

lemma validate_orders_list_status:
  "validate_orders float_text list_status_example None None = Inl TypeError"
  by (simp add: validate_orders_def list_status_example_def or_default_def
      DEFAULT_REQUIRED_FIELDS_def DEFAULT_ALLOWED_STATUSES_def row_issues_def cell_get_def)

text \<open>
  C10. A required field whose value is NaN is never reported as missing: NaN is truthy,
  so the test for a missing field does not hold for it. Whenever the call returns, the
  issues of that row have no \<^verbatim>\<open>missing_<field>\<close> for it; and the call raises only when some
  row of the batch holds \<^verbatim>\<open>pd.NA\<close> or a container as said for C4, never because of a NaN.
\<close>

theorem nan_required_field_not_missing:
  assumes "i < length (orecs df)" and "cell_get (orecs df ! i) f = Scalar (PFloat NaN)"
  shows "case validate_orders fr df req al of
           Inl e \<Rightarrow> list_ex (claimed_raises (or_default req DEFAULT_REQUIRED_FIELDS)) (orecs df)
         | Inr v \<Rightarrow> ''missing_'' @ f \<notin> set (validation_issues v ! i)"
proof (cases "list_ex (claimed_raises (or_default req DEFAULT_REQUIRED_FIELDS)) (orecs df)")
  case True
  then show ?thesis by (simp add: validate_orders_claimed)
next
  case False
  have "''missing_'' @ f \<notin> set (claimed_issues fr required allowed (orecs df ! i))"
    for required allowed
    using assms(2)
    by (auto simp: claimed_issues_def claimed_missing_def cell_truthy_def split: option.splits)
  then show ?thesis
    using False assms(1) by (simp add: validate_orders_claimed)
qed

text \<open>
  The third order of the example has NaN for its total, a required field: the call
  returns, and the issues of that order do not hold \<^verbatim>\<open>missing_order_total\<close>.
\<close>

theorem nan_required_field_not_missing_witness:
  "2 < length (orecs validation_example)
   \<and> cell_get (orecs validation_example ! 2) ''order_total'' = Scalar (PFloat NaN)
   \<and> ''order_total'' \<in> set (or_default None DEFAULT_REQUIRED_FIELDS)
   \<and> (\<exists>v. validate_orders float_text validation_example None None = Inr v
         \<and> ''missing_order_total'' \<notin> set (validation_issues v ! 2))"
proof -
  have l: "2 < length (orecs validation_example)"
    by (simp add: validation_example_def)
  have n: "cell_get (orecs validation_example ! 2) ''order_total'' = Scalar (PFloat NaN)"
    by (simp add: validation_example_def cell_get_def)
  show ?thesis
    using l n
      nan_required_field_not_missing [where fr = float_text and req = None and al = None,
        OF l n]
    by (simp add: validation_example_issues or_default_def DEFAULT_REQUIRED_FIELDS_def)
qed

section \<open>Order totals\<close>

lemma numeric_filled_map:
  "numeric_filled sn d df c = map (\<lambda>r. number_or sn d (row_get r c)) (recs df)"
  by (simp add: numeric_filled_def column_def number_or_def)

lemma recs_set_column_map:
  "recs (set_column name (map g (recs df)) df) = map (\<lambda>r. r(name \<mapsto> g r)) (recs df)"
  using map2_map_map[of "\<lambda>r v. r(name \<mapsto> v)" "\<lambda>r. r" "recs df" g]
  by (simp add: set_column_def)

lemma calculate_order_total_rows:
  assumes "price_col \<in> set (cols df)" and "qty_col \<in> set (cols df)"
  shows "\<exists>out. calculate_order_total sn df price_col qty_col discount_col tax_col shipping_col out_col
            = Inr out
          \<and> recs out = map (\<lambda>r. r(out_col \<mapsto> PFloat (Fl (claimed_order_total sn df price_col
                 qty_col discount_col tax_col shipping_col r)))) (recs df)"
proof -
  let ?t1 = "map (\<lambda>r. number_or sn 0 (row_get r price_col) * number_or sn 1 (row_get r qty_col)) (recs df)"
  let ?t2 = "map (\<lambda>r. number_or sn 0 (row_get r price_col) * number_or sn 1 (row_get r qty_col)
        - adjustment sn df discount_col r) (recs df)"
  let ?t3 = "map (\<lambda>r. number_or sn 0 (row_get r price_col) * number_or sn 1 (row_get r qty_col)
        - adjustment sn df discount_col r + adjustment sn df tax_col r) (recs df)"
  let ?t4 = "map (claimed_order_total sn df price_col qty_col discount_col tax_col shipping_col) (recs df)"
  have 1: "map2 (*) (numeric_filled sn 0 df price_col) (numeric_filled sn 1 df qty_col) = ?t1"
    by (simp add: numeric_filled_map map2_map_map)
  have 2: "(case discount_col of None \<Rightarrow> ?t1
       | Some c \<Rightarrow> if c \<noteq> [] \<and> c \<in> set (cols df)
                   then map2 (-) ?t1 (numeric_filled sn 0 df c) else ?t1) = ?t2"
    by (cases discount_col) (simp_all add: adjustment_def numeric_filled_map map2_map_map)
  have 3: "(case tax_col of None \<Rightarrow> ?t2
       | Some c \<Rightarrow> if c \<noteq> [] \<and> c \<in> set (cols df)
                   then map2 (+) ?t2 (numeric_filled sn 0 df c) else ?t2) = ?t3"
    by (cases tax_col) (simp_all add: adjustment_def numeric_filled_map map2_map_map)
  have 4: "(case shipping_col of None \<Rightarrow> ?t3
       | Some c \<Rightarrow> if c \<noteq> [] \<and> c \<in> set (cols df)
                   then map2 (+) ?t3 (numeric_filled sn 0 df c) else ?t3) = ?t4"
    by (cases shipping_col) (simp_all add: adjustment_def numeric_filled_map map2_map_map claimed_order_total_def)
  have "calculate_order_total sn df price_col qty_col discount_col tax_col shipping_col out_col
      = Inr (set_column out_col (map (\<lambda>x. PFloat (Fl x)) ?t4) df)"
    using assms unfolding calculate_order_total_def Let_def 1 2 3 4 by simp
  then show ?thesis
    using recs_set_column_map[of out_col "\<lambda>r. PFloat (Fl (claimed_order_total sn df price_col
                 qty_col discount_col tax_col shipping_col r))" df]
    by (simp add: o_def)
qed

text \<open>
  The orders of the specification: prices 10 and 5, quantities 2 and 3, totals 20 and 15.
\<close>

lemma calculate_order_total_example:
  "calculate_order_total number_of_decimal prices_and_quantities ''price'' ''quantity''
     None None None ''order_total''
   = Inr \<lparr>cols = [''price'', ''quantity'', ''order_total''],
          recs = [[''price'' \<mapsto> PInt 10, ''quantity'' \<mapsto> PInt 2,
                   ''order_total'' \<mapsto> PFloat (Fl 20)],
                  [''price'' \<mapsto> PInt 5, ''quantity'' \<mapsto> PInt 3,
                   ''order_total'' \<mapsto> PFloat (Fl 15)]]\<rparr>"
  by (simp add: calculate_order_total_def prices_and_quantities_def numeric_filled_def
      column_def row_get_def set_column_def add_col_def)

text \<open>
  C3. With both the price and the quantity column in the frame, every row gets the total
  of the specification (\<open>calculate_order_total_rows\<close>). The claim also has a missing
  quantity default to 1, and the code asks for that default with
  \<^verbatim>\<open>df.get(qty_col, 1)\<close>; but on a frame without the quantity column the call raises
  AttributeError instead of taking every quantity as 1.
\<close>

theorem calculate_order_total_missing_quantity:
  "calculate_order_total number_of_decimal prices_only ''price'' ''quantity''
     None None None ''order_total'' = Inl AttributeError"
  by (simp add: calculate_order_total_def prices_only_def)

section \<open>Customer lifetime value\<close>

lemma py_eq_sym: "py_eq a b = py_eq b a"
  by (induction a b rule: py_eq.induct) (auto split: option.splits)

lemma py_eq_num: "num_of a = Some x \<Longrightarrow> py_eq a b = (num_of b = Some x)"
  by (induction a b rule: py_eq.induct) (auto split: option.splits)

lemma py_eq_trans: "py_eq a b \<Longrightarrow> py_eq b c \<Longrightarrow> py_eq a c"
  by (cases a rule: num_of.cases; cases b rule: num_of.cases; cases c rule: num_of.cases)
    (auto split: if_splits)

lemma py_eq_refl: "\<not> isna k \<Longrightarrow> py_eq k k"
  by (cases k rule: num_of.cases) (auto simp: isna_def)

lemma set_uniq_keys: "set (uniq_keys ks) \<subseteq> set ks"
  by (induction ks) auto

lemma count_uniq_keys:
  assumes "\<forall>x\<in>set ks. py_eq x x"
  shows "length (filter (\<lambda>x. py_eq x k) (uniq_keys ks)) = (if \<exists>x\<in>set ks. py_eq x k then 1 else 0)"
  using assms
proof (induction ks)
  case Nil
  then show ?case by simp
next
  case (Cons a ks)
  have f: "filter (\<lambda>x. py_eq x k) (filter (\<lambda>x. \<not> py_eq x a) (uniq_keys ks))
      = (if py_eq a k then [] else filter (\<lambda>x. py_eq x k) (uniq_keys ks))"
  proof (cases "py_eq a k")
    case True
    have "\<And>x. py_eq x k \<Longrightarrow> py_eq x a"
      using True py_eq_trans py_eq_sym by blast
    then show ?thesis using True by (auto simp: filter_empty_conv)
  next
    case False
    have "\<And>x. py_eq x k \<Longrightarrow> \<not> py_eq x a"
      using False py_eq_trans py_eq_sym by blast
    then have "filter (\<lambda>x. py_eq x k) (filter (\<lambda>x. \<not> py_eq x a) (uniq_keys ks))
       = filter (\<lambda>x. py_eq x k) (uniq_keys ks)"
      by (auto intro: filter_cong)
    then show ?thesis using False by simp
  qed
  show ?case using Cons f by auto
qed

lemma filter_insert_key:
  "length (filter P (insert_key k xs)) = length (filter P (k # xs))"
  by (induction xs) auto

lemma filter_sort_keys: "length (filter P (sort_keys xs)) = length (filter P xs)"
  unfolding sort_keys_def by (induction xs) (auto simp: filter_insert_key)

lemma set_insert_key: "set (insert_key k xs) = insert k (set xs)"
  by (induction xs) auto

lemma set_sort_keys: "set (sort_keys xs) = set xs"
  unfolding sort_keys_def by (induction xs) (auto simp: set_insert_key)

lemma one_group_per_key:
  assumes "k \<in> set keys" and "\<not> isna k"
  shows "length (filter (\<lambda>g. py_eq g k) (group_keys keys)) = 1"
proof -
  let ?ks = "filter (\<lambda>k. \<not> isna k) keys"
  have r: "\<forall>x\<in>set ?ks. py_eq x x" by (simp add: py_eq_refl)
  have "\<exists>x\<in>set ?ks. py_eq x k" using assms py_eq_refl by auto
  then show ?thesis
    unfolding group_keys_def using count_uniq_keys[OF r, of k] by (simp add: filter_sort_keys)
qed

lemma group_keys_subset: "g \<in> set (group_keys keys) \<Longrightarrow> g \<in> set keys \<and> \<not> isna g"
  unfolding group_keys_def using set_uniq_keys[of "filter (\<lambda>k. \<not> isna k) keys"]
  by (auto simp: set_sort_keys)


lemma group_values_map:
  "group_values (map f rs) (map g rs) k = map g (filter (\<lambda>r. py_eq (f r) k) rs)"
  unfolding group_values_def by (induction rs) auto

lemma foldl_max: "foldl max (t::int) rest = Max (insert t (set rest))"
proof (induction rest arbitrary: t)
  case Nil
  then show ?case by simp
next
  case (Cons a rest)
  have "Max (insert (max t a) (set rest)) = Max (insert t (insert a (set rest)))"
    by (cases "set rest = {}") (simp_all add: max.assoc)
  then show ?case using Cons by simp
qed

lemma set_map_filter_id: "set (List.map_filter (\<lambda>t. t) ts) = {t. Some t \<in> set ts}"
  by (force simp: List.map_filter_def image_iff)

lemma max_stamp_Max:
  "max_stamp ts = (if {t. Some t \<in> set ts} = {} then None else Some (Max {t. Some t \<in> set ts}))"
proof (cases "List.map_filter (\<lambda>t. t) ts")
  case Nil
  then have "{t. Some t \<in> set ts} = {}"
    using set_map_filter_id[of ts] by simp
  then show ?thesis using Nil by (simp add: max_stamp_def)
next
  case (Cons t rest)
  then have s: "{t. Some t \<in> set ts} = insert t (set rest)"
    using set_map_filter_id[of ts] by simp
  show ?thesis using Cons by (simp add: max_stamp_def foldl_max s)
qed

lemma calculate_clv_rows:
  assumes "order_total_col \<in> set (cols df)" and "customer_id_col \<in> set (cols df)"
    and "''order_date'' \<in> set (cols df)" and "order_total_col \<noteq> ''order_date''"
    and "customer_id_col \<noteq> order_total_col" and "customer_id_col \<noteq> ''order_date''"
    and "\<not> tz_aware (column df ''order_date'')"
  shows "\<exists>rows. calculate_clv sn dt tz_aware now df customer_id_col order_total_col = Inr rows
     \<and> (\<forall>k\<in>set (column df customer_id_col). \<not> isna k \<longrightarrow>
           length (filter (\<lambda>r. py_eq (customer_id r) k) rows) = 1)
     \<and> (\<forall>r\<in>set rows.
           customer_id r \<in> set (column df customer_id_col) \<and> \<not> isna (customer_id r)
           \<and> clv r = sum_list (totals_of sn df customer_id_col order_total_col (customer_id r))
           \<and> total_orders r = length (orders_of df customer_id_col (customer_id r))
           \<and> avg_order_value r = clv r / real (total_orders r)
           \<and> recency_days r = map_option (\<lambda>t. (now - t) div day_ns)
                 (most_recent dt df customer_id_col (customer_id r))
           \<and> frequency r = total_orders r)"
proof -
  let ?keys = "column df customer_id_col"
  let ?row = "\<lambda>k. \<lparr>customer_id = k,
       clv = sum_list (totals_of sn df customer_id_col order_total_col k),
       total_orders = length (orders_of df customer_id_col k),
       avg_order_value = sum_list (totals_of sn df customer_id_col order_total_col k)
          / real (length (orders_of df customer_id_col k)),
       last_order_date = most_recent dt df customer_id_col k,
       recency_days = map_option (\<lambda>t. (now - t) div day_ns) (most_recent dt df customer_id_col k),
       frequency = length (orders_of df customer_id_col k)\<rparr>"
  have t: "group_values ?keys (numeric_filled sn 0 df order_total_col) k
       = totals_of sn df customer_id_col order_total_col k" for k
    using group_values_map[of "\<lambda>r. row_get r customer_id_col" "recs df"
        "\<lambda>r. number_or sn 0 (row_get r order_total_col)" k]
    by (simp add: column_def numeric_filled_def number_or_def totals_of_def orders_of_def o_def)
  have d: "max_stamp (group_values ?keys (map dt (column df ''order_date'')) k)
       = most_recent dt df customer_id_col k" for k
  proof -
    have "group_values ?keys (map dt (column df ''order_date'')) k
        = map (\<lambda>r. dt (row_get r ''order_date'')) (orders_of df customer_id_col k)"
      using group_values_map[of "\<lambda>r. row_get r customer_id_col" "recs df"
          "\<lambda>r. dt (row_get r ''order_date'')" k]
      by (simp add: column_def orders_of_def o_def)
    moreover have "{t. Some t \<in> set (map (\<lambda>r. dt (row_get r ''order_date'')) (orders_of df customer_id_col k))}
        = {t. \<exists>r\<in>set (orders_of df customer_id_col k). dt (row_get r ''order_date'') = Some t}"
      by force
    ultimately show ?thesis
      by (simp add: max_stamp_Max most_recent_def Let_def)
  qed
  have l: "length (totals_of sn df customer_id_col order_total_col k)
      = length (orders_of df customer_id_col k)" for k
    by (simp add: totals_of_def)
  have eq: "calculate_clv sn dt tz_aware now df customer_id_col order_total_col
      = Inr (map ?row (group_keys ?keys))"
    using assms by (simp add: calculate_clv_def Let_def t d l)
  have one: "\<forall>k\<in>set ?keys. \<not> isna k \<longrightarrow>
      length (filter (\<lambda>r. py_eq (customer_id r) k) (map ?row (group_keys ?keys))) = 1"
  proof (intro ballI impI)
    fix k assume "k \<in> set ?keys" "\<not> isna k"
    then have "length (filter (\<lambda>g. py_eq g k) (group_keys ?keys)) = 1"
      by (rule one_group_per_key)
    then show "length (filter (\<lambda>r. py_eq (customer_id r) k) (map ?row (group_keys ?keys))) = 1"
      by (simp add: filter_map o_def)
  qed
  have each: "\<forall>r\<in>set (map ?row (group_keys ?keys)).
           customer_id r \<in> set ?keys \<and> \<not> isna (customer_id r)
           \<and> clv r = sum_list (totals_of sn df customer_id_col order_total_col (customer_id r))
           \<and> total_orders r = length (orders_of df customer_id_col (customer_id r))
           \<and> avg_order_value r = clv r / real (total_orders r)
           \<and> recency_days r = map_option (\<lambda>t. (now - t) div day_ns)
                 (most_recent dt df customer_id_col (customer_id r))
           \<and> frequency r = total_orders r"
    using group_keys_subset[of _ ?keys] by auto
  show ?thesis using eq one each by blast
qed

text \<open>
  The customers of the test suite, 18300 days after the epoch: the totals 10 and 20 of
  the first customer give a value of 30 over 2 orders, and the second customer, whose only
  date does not parse, has no recency.
\<close>

lemma calculate_clv_example:
  "calculate_clv number_of_decimal example_dt example_tz_aware (18300 * day_ns) clv_example
     ''customer_id'' ''order_total''
   = Inr [\<lparr>customer_id = PStr ''c1'', clv = 30, total_orders = 2, avg_order_value = 15,
            last_order_date = Some (18293 * day_ns), recency_days = Some 7, frequency = 2\<rparr>,
          \<lparr>customer_id = PStr ''c2'', clv = 5, total_orders = 1, avg_order_value = 5,
            last_order_date = None, recency_days = None, frequency = 1\<rparr>]"
  by (simp add: calculate_clv_def clv_example_def example_tz_aware_def column_def row_get_def
      numeric_filled_def group_keys_def sort_keys_def isna_def key_le_def the_str_def
      group_values_def max_stamp_def List.map_filter_def example_dt_def day_ns_def Let_def)

text \<open>
  C5. On a frame with the three columns and dates without time zone, the result has
  exactly one row for each customer, with the sums, counts, means and recencies of the
  claim (\<open>calculate_clv_rows\<close>). But the code always makes the current time naive, while
  the comment above it promises compatible time zone awareness of both sides: an order
  date with a UTC offset parses to a time zone aware column, and the subtraction raises
  TypeError instead of giving the recency.
\<close>

theorem calculate_clv_offset_dates:
  "calculate_clv number_of_decimal example_dt example_tz_aware now clv_offset_example
     ''customer_id'' ''order_total'' = Inl TypeError"
  by (simp add: calculate_clv_def clv_offset_example_def example_tz_aware_def column_def
      row_get_def)

section \<open>The stages in a row\<close>

lemma cols_flag_fraud:
  "cols (flag_fraud sf df th extra) = add_col (add_col (cols df) ''fraud_score'') ''fraud_flag''"
  by (simp add: flag_fraud_def set_column_def Let_def)

lemma set_add_col: "set (add_col cs c) = insert c (set cs)"
  by (auto simp: add_col_def)

lemma add_col_member: "c \<in> set cs \<Longrightarrow> add_col cs c = cs"
  by (simp add: add_col_def)

lemma set_column_frame:
  "set_column name (map g (recs df)) df
     = \<lparr>cols = add_col (cols df) name, recs = map (\<lambda>r. r(name \<mapsto> g r)) (recs df)\<rparr>"
  using map2_map_map[of "\<lambda>r v. r(name \<mapsto> v)" "\<lambda>r. r" "recs df" g]
  by (cases df) (simp add: set_column_def)

lemma calculate_order_total_frame:
  assumes "''price'' \<in> set (cols df)" and "''quantity'' \<in> set (cols df)"
  shows "calculate_order_total sn df ''price'' ''quantity'' None None None ''order_total''
     = Inr \<lparr>cols = add_col (cols df) ''order_total'',
            recs = map (\<lambda>r. r(''order_total'' \<mapsto> PFloat (Fl (claimed_order_total sn df
                          ''price'' ''quantity'' None None None r)))) (recs df)\<rparr>"
proof -
  let ?t = "map (claimed_order_total sn df ''price'' ''quantity'' None None None) (recs df)"
  have 1: "map2 (*) (numeric_filled sn 0 df ''price'') (numeric_filled sn 1 df ''quantity'') = ?t"
    by (simp add: numeric_filled_map map2_map_map claimed_order_total_def adjustment_def)
  have "calculate_order_total sn df ''price'' ''quantity'' None None None ''order_total''
      = Inr (set_column ''order_total'' (map (\<lambda>x. PFloat (Fl x)) ?t) df)"
    using assms unfolding calculate_order_total_def Let_def 1 by simp
  then show ?thesis
    by (simp add: o_def set_column_frame)
qed

lemma flag_fraud_frame:
  "flag_fraud sf df 1000 []
     = \<lparr>cols = add_col (add_col (cols df) ''fraud_score'') ''fraud_flag'',
        recs = map (\<lambda>r. r(''fraud_score'' \<mapsto>
                            PInt (claimed_score sf 1000 (set DISPOSABLE_EMAIL_DOMAINS) r),
                          ''fraud_flag'' \<mapsto>
                            PBool (4 \<le> claimed_score sf 1000 (set DISPOSABLE_EMAIL_DOMAINS) r)))
                 (recs df)\<rparr>"
  using cols_flag_fraud[of sf df 1000 "[]"] recs_flag_fraud[of sf df 1000 "[]"]
  by (simp add: row_score_claimed)

lemma flagged_orders:
  assumes "''order_total'' \<in> set (cols df)
      \<or> (''price'' \<in> set (cols df) \<and> ''quantity'' \<in> set (cols df))"
  shows "\<exists>df1. (if ''order_total'' \<notin> set (cols df)
                then calculate_order_total sn df ''price'' ''quantity'' None None None
                       ''order_total''
                else Inr df) = Inr df1
     \<and> (flag_fraud sf df1 1000 [])
           \<lparr>cols := add_col (cols (flag_fraud sf df1 1000 [])) ''validation_issues''\<rparr>
         = claimed_orders sn sf df
     \<and> recs (flag_fraud sf df1 1000 []) = recs (claimed_orders sn sf df)
     \<and> cols (flag_fraud sf df1 1000 []) =
         add_col (add_col (add_col (cols df) ''order_total'') ''fraud_score'') ''fraud_flag''"
proof (cases "''order_total'' \<in> set (cols df)")
  case True
  then show ?thesis
    by (simp add: flag_fraud_frame claimed_orders_def Let_def add_col_member)
next
  case False
  then have pq: "''price'' \<in> set (cols df)" "''quantity'' \<in> set (cols df)"
    using assms by auto
  show ?thesis
    using False
    by (simp add: calculate_order_total_frame[OF pq] flag_fraud_frame claimed_orders_def
        Let_def o_def)
qed

lemma column_claimed_orders:
  "c \<noteq> ''order_total'' \<Longrightarrow> c \<noteq> ''fraud_score'' \<Longrightarrow> c \<noteq> ''fraud_flag'' \<Longrightarrow>
   column (claimed_orders sn sf df) c = column df c"
  by (simp add: claimed_orders_def column_def row_get_def Let_def)

lemma calculate_clv_frame:
  assumes "''order_total'' \<in> set (cols df)" and "''customer_id'' \<in> set (cols df)"
    and "''order_date'' \<in> set (cols df)" and "\<not> tz_aware (column df ''order_date'')"
  shows "calculate_clv sn dt tz_aware now df ''customer_id'' ''order_total''
     = Inr (claimed_customers sn dt now df)"
proof -
  let ?keys = "column df ''customer_id''"
  have t: "group_values ?keys (numeric_filled sn 0 df ''order_total'') k
       = totals_of sn df ''customer_id'' ''order_total'' k" for k
    using group_values_map[of "\<lambda>r. row_get r ''customer_id''" "recs df"
        "\<lambda>r. number_or sn 0 (row_get r ''order_total'')" k]
    by (simp add: column_def numeric_filled_def number_or_def totals_of_def orders_of_def o_def)
  have d: "max_stamp (group_values ?keys (map dt (column df ''order_date'')) k)
       = most_recent dt df ''customer_id'' k" for k
  proof -
    have "group_values ?keys (map dt (column df ''order_date'')) k
        = map (\<lambda>r. dt (row_get r ''order_date'')) (orders_of df ''customer_id'' k)"
      using group_values_map[of "\<lambda>r. row_get r ''customer_id''" "recs df"
          "\<lambda>r. dt (row_get r ''order_date'')" k]
      by (simp add: column_def orders_of_def o_def)
    moreover have "{t. Some t \<in> set (map (\<lambda>r. dt (row_get r ''order_date''))
            (orders_of df ''customer_id'' k))}
        = {t. \<exists>r\<in>set (orders_of df ''customer_id'' k). dt (row_get r ''order_date'') = Some t}"
      by force
    ultimately show ?thesis
      by (simp add: max_stamp_Max most_recent_def Let_def)
  qed
  have l: "length (totals_of sn df ''customer_id'' ''order_total'' k)
      = length (orders_of df ''customer_id'' k)" for k
    by (simp add: totals_of_def)
  show ?thesis
    using assms by (simp add: calculate_clv_def claimed_customers_def Let_def t d l)
qed

lemma stages_claimed:
  assumes "normalized_batch tz_aware df"
  shows "run_stages sn sf fr dt tz_aware now df = Inr (claimed_output sn sf fr dt now df)"
proof -
  have tot: "''order_total'' \<in> set (cols df)
      \<or> (''price'' \<in> set (cols df) \<and> ''quantity'' \<in> set (cols df))"
    using assms by (auto simp: normalized_batch_def)
  obtain df1 where
    1: "(if ''order_total'' \<notin> set (cols df)
         then calculate_order_total sn df ''price'' ''quantity'' None None None ''order_total''
         else Inr df) = Inr df1"
    and 2: "(flag_fraud sf df1 1000 [])
           \<lparr>cols := add_col (cols (flag_fraud sf df1 1000 [])) ''validation_issues''\<rparr>
         = claimed_orders sn sf df"
    and 3: "recs (flag_fraud sf df1 1000 []) = recs (claimed_orders sn sf df)"
    and 4: "cols (flag_fraud sf df1 1000 []) =
         add_col (add_col (add_col (cols df) ''order_total'') ''fraud_score'') ''fraud_flag''"
    using flagged_orders[OF tot, of sn sf] by blast
  let ?df2 = "flag_fraud sf df1 1000 []"
  have o: "(as_objects ?df2)\<lparr>ocols := add_col (ocols (as_objects ?df2)) ''validation_issues''\<rparr>
      = as_objects (claimed_orders sn sf df)"
    using 3 4 by (simp add: as_objects_def claimed_orders_def Let_def)
  have r: "orecs (as_objects ?df2) = orecs (as_objects (claimed_orders sn sf df))"
    using 3 by (simp add: as_objects_def)
  have v: "validate_orders fr (as_objects ?df2) None None
      = Inr \<lparr>vframe = as_objects (claimed_orders sn sf df),
             validation_issues =
               map (claimed_issues fr DEFAULT_REQUIRED_FIELDS (set DEFAULT_ALLOWED_STATUSES))
                 (orecs (as_objects (claimed_orders sn sf df)))\<rparr>"
    using o r scalars_never_raise[of "or_default None DEFAULT_REQUIRED_FIELDS" ?df2]
    by (simp add: validate_orders_claimed or_default_def)
  have c: "calculate_clv sn dt tz_aware now (claimed_orders sn sf df) ''customer_id''
        ''order_total'' = Inr (claimed_customers sn dt now (claimed_orders sn sf df))"
  proof (rule calculate_clv_frame)
    show "''order_total'' \<in> set (cols (claimed_orders sn sf df))"
      by (simp add: claimed_orders_def Let_def set_add_col)
    show "''customer_id'' \<in> set (cols (claimed_orders sn sf df))"
      using assms by (simp add: claimed_orders_def Let_def set_add_col normalized_batch_def)
    show "''order_date'' \<in> set (cols (claimed_orders sn sf df))"
      using assms by (simp add: claimed_orders_def Let_def set_add_col normalized_batch_def)
    show "\<not> tz_aware (column (claimed_orders sn sf df) ''order_date'')"
      using assms by (simp add: column_claimed_orders normalized_batch_def)
  qed
  show ?thesis
    unfolding run_stages_def 1 Let_def
    by (simp add: v 2 c claimed_output_def)
qed

lemma clv_without_recency:
  "map_sum (\<lambda>e. e) (map (\<lambda>r. r\<lparr>recency_days := None\<rparr>))
     (calculate_clv sn dt tz_aware now1 df c t)
   = map_sum (\<lambda>e. e) (map (\<lambda>r. r\<lparr>recency_days := None\<rparr>))
     (calculate_clv sn dt tz_aware now2 df c t)"
  by (simp add: calculate_clv_def Let_def)

lemma stages_without_recency:
  "without_recency (run_stages sn sf fr dt tz_aware now1 df)
   = without_recency (run_stages sn sf fr dt tz_aware now2 df)"
  unfolding run_stages_def without_recency_def Let_def
  using clv_without_recency[of sn dt tz_aware now1 _ "''customer_id''" "''order_total''" now2]
  by (auto split: sum.splits)

lemma rows_equal_iff:
  "map (\<lambda>r. r\<lparr>recency_days := None\<rparr>) xs = map (\<lambda>r. r\<lparr>recency_days := None\<rparr>) ys \<Longrightarrow>
   (xs = ys) = (map recency_days xs = map recency_days (ys :: clv_row list))"
proof (induction xs arbitrary: ys)
  case Nil
  then show ?case by simp
next
  case (Cons x xs)
  then obtain y ys' where ys: "ys = y # ys'" by (cases ys) auto
  have "(x = y) = (recency_days x = recency_days y)"
    using Cons.prems ys by (cases x; cases y) auto
  then show ?case using Cons ys by auto
qed

lemma outputs_equal_iff:
  assumes "without_recency a = without_recency b"
  shows "(a = b) = (recency_column a = recency_column b)"
proof (cases a)
  case (Inl e)
  then show ?thesis using assms by (cases b) (auto simp: without_recency_def recency_column_def)
next
  case a: (Inr s)
  then obtain s' where b: "b = Inr s'"
    using assms by (cases b) (auto simp: without_recency_def)
  have o: "orders s = orders s'"
    using assms a b by (cases s; cases s') (simp add: without_recency_def)
  have c: "map_sum (\<lambda>e. e) (map (\<lambda>r. r\<lparr>recency_days := None\<rparr>)) (customers s)
      = map_sum (\<lambda>e. e) (map (\<lambda>r. r\<lparr>recency_days := None\<rparr>)) (customers s')"
    using assms a b by (cases s; cases s') (simp add: without_recency_def)
  have "(customers s = customers s')
      = (recency_column (Inr s) = recency_column (Inr s'))"
  proof (cases "customers s")
    case (Inl e)
    then show ?thesis using c by (cases "customers s'") (auto simp: recency_column_def)
  next
    case rows: (Inr xs)
    then obtain ys where ys: "customers s' = Inr ys"
      using c by (cases "customers s'") auto
    show ?thesis
      using rows ys c rows_equal_iff[of xs ys] by (simp add: recency_column_def)
  qed
  then show ?thesis
    using a b o by (cases s; cases s') auto
qed

text \<open>
  C9, as amended. Two runs of the stages on the same batch, at the clock readings \<open>now1\<close>
  and \<open>now2\<close>, agree on everything but the column \<^verbatim>\<open>recency_days\<close> of the lifetime
  values, and they are identical exactly when they agree on that column too. On a batch
  that is already normalized each run returns the output of \<open>claimed_output\<close>: the orders
  with their totals, fraud scores, fraud flags and issues, which are functions of the
  batch alone, and one row of lifetime values for each customer, in which the recency is
  the number of whole days from the most recent order date of the customer to the clock
  reading of that run and nothing else depends on the clock.
\<close>

theorem stages_rerun:
  "without_recency (run_stages sn sf fr dt tz_aware now1 df)
     = without_recency (run_stages sn sf fr dt tz_aware now2 df)
   \<and> (run_stages sn sf fr dt tz_aware now1 df = run_stages sn sf fr dt tz_aware now2 df
        \<longleftrightarrow> recency_column (run_stages sn sf fr dt tz_aware now1 df)
              = recency_column (run_stages sn sf fr dt tz_aware now2 df))
   \<and> (normalized_batch tz_aware df \<longrightarrow>
        run_stages sn sf fr dt tz_aware now1 df = Inr (claimed_output sn sf fr dt now1 df)
        \<and> run_stages sn sf fr dt tz_aware now2 df = Inr (claimed_output sn sf fr dt now2 df))"
  using stages_without_recency[of sn sf fr dt tz_aware now1 df now2]
    outputs_equal_iff[of "run_stages sn sf fr dt tz_aware now1 df"
      "run_stages sn sf fr dt tz_aware now2 df"]
    stages_claimed[of tz_aware df sn sf fr dt]
  by simp

lemma stages_example_recency:
  "recency_column (run_stages number_of_decimal float_of_decimal float_text example_dt
       example_tz_aware (18300 * day_ns) clv_example) = [Some 7, None]"
  "recency_column (run_stages number_of_decimal float_of_decimal float_text example_dt
       example_tz_aware (18300 * day_ns + 3600000000000) clv_example) = [Some 7, None]"
  by (simp_all add: recency_column_def run_stages_def validate_orders_claimed
      scalars_never_raise cols_flag_fraud recs_flag_fraud add_col_def
      calculate_clv_def clv_example_def example_tz_aware_def column_def row_get_def
      numeric_filled_def group_keys_def sort_keys_def isna_def key_le_def the_str_def
      group_values_def max_stamp_def List.map_filter_def example_dt_def day_ns_def Let_def)

text \<open>
  The three orders of two customers, already normalized, run 18300 days after the epoch
  and again one hour later: the recency of the first customer is 7 days in both runs, the
  second has none, and the two outputs are identical.
\<close>

theorem stages_rerun_witness:
  "normalized_batch example_tz_aware clv_example
   \<and> recency_column (run_stages number_of_decimal float_of_decimal float_text example_dt
         example_tz_aware (18300 * day_ns) clv_example) = [Some 7, None]
   \<and> run_stages number_of_decimal float_of_decimal float_text example_dt
         example_tz_aware (18300 * day_ns) clv_example
       = run_stages number_of_decimal float_of_decimal float_text example_dt
           example_tz_aware (18300 * day_ns + 3600000000000) clv_example
   \<and> run_stages number_of_decimal float_of_decimal float_text example_dt
         example_tz_aware (18300 * day_ns) clv_example
       = Inr (claimed_output number_of_decimal float_of_decimal float_text example_dt
                (18300 * day_ns) clv_example)"
proof -
  have n: "normalized_batch example_tz_aware clv_example"
    by (simp add: normalized_batch_def clv_example_def example_tz_aware_def column_def
        row_get_def)
  note t = stages_rerun [of number_of_decimal float_of_decimal float_text example_dt
        example_tz_aware "18300 * day_ns" clv_example "18300 * day_ns + 3600000000000"]
  have r: "recency_column (run_stages number_of_decimal float_of_decimal float_text example_dt
         example_tz_aware (18300 * day_ns) clv_example)
       = recency_column (run_stages number_of_decimal float_of_decimal float_text example_dt
         example_tz_aware (18300 * day_ns + 3600000000000) clv_example)"
    by (simp only: stages_example_recency)
  have e: "run_stages number_of_decimal float_of_decimal float_text example_dt
         example_tz_aware (18300 * day_ns) clv_example
       = run_stages number_of_decimal float_of_decimal float_text example_dt
           example_tz_aware (18300 * day_ns + 3600000000000) clv_example"
    using t r by blast
  have c: "run_stages number_of_decimal float_of_decimal float_text example_dt
         example_tz_aware (18300 * day_ns) clv_example
       = Inr (claimed_output number_of_decimal float_of_decimal float_text example_dt
                (18300 * day_ns) clv_example)"
    using t n by blast
  show ?thesis
    using n stages_example_recency(1) e c by blast
qed

text \<open>
  C9 as stated fails: a second run of the stages one day after the first, on the same
  three orders, gives the first customer a recency of 8 days where the first run gave 7.
\<close>

theorem stages_rerun_counterexample:
  "recency_column (run_stages number_of_decimal float_of_decimal float_text example_dt
       example_tz_aware (18300 * day_ns) clv_example) = [Some 7, None]
   \<and> recency_column (run_stages number_of_decimal float_of_decimal float_text example_dt
       example_tz_aware (18301 * day_ns) clv_example) = [Some 8, None]"
  by (simp add: recency_column_def run_stages_def validate_orders_claimed
      scalars_never_raise cols_flag_fraud recs_flag_fraud add_col_def
      calculate_clv_def clv_example_def example_tz_aware_def column_def row_get_def
      numeric_filled_def group_keys_def sort_keys_def isna_def key_le_def the_str_def
      group_values_def max_stamp_def List.map_filter_def example_dt_def day_ns_def Let_def)

section \<open>Currency normalization\<close>

lemma filter_dropWhile_space:
  "filter currency_char (dropWhile is_space s) = filter currency_char s"
proof (induction s)
  case Nil then show ?case by simp
next
  case (Cons c s)
  have "is_space c \<Longrightarrow> \<not> currency_char c"
    by (auto simp: is_space_def currency_char_def is_digit_def Let_def)
  then show ?case using Cons by auto
qed

lemma filter_strip: "filter currency_char (strip s) = filter currency_char s"
proof -
  have "filter currency_char (strip s) = rev (filter currency_char (dropWhile is_space (rev (dropWhile is_space s))))"
    by (simp add: strip_def rev_filter)
  also have "\<dots> = rev (filter currency_char (rev (dropWhile is_space s)))"
    by (simp only: filter_dropWhile_space)
  also have "\<dots> = filter currency_char s"
    by (simp add: rev_filter[symmetric] filter_dropWhile_space)
  finally show ?thesis .
qed

lemma float_of_decimal_Nil: "float_of_decimal [] = None"
  by (simp add: float_of_decimal_def)

lemma parse_amount_claimed: "parse_amount v = claimed_amount v"
  by (cases v rule: parse_amount.cases)
    (auto simp: claimed_amount_def filter_strip float_of_decimal_Nil Let_def split: option.splits pyfloat.splits)


lemma to_target_claimed:
  "has_column df currency_col \<Longrightarrow>
   float_cell (case parse_amount (row_get r amount_col) of None \<Rightarrow> None
               | Some a \<Rightarrow> Some (a * rate_of rates (row_get r (the currency_col))))
   = claimed_normalized rates df amount_col currency_col r"
  by (cases currency_col)
    (auto simp: has_column_def claimed_normalized_def parse_amount_claimed float_cell_def
      rate_of_def split: option.splits)

lemma parsed_claimed:
  "\<not> has_column df currency_col \<Longrightarrow>
   float_cell (parse_amount (row_get r amount_col))
   = claimed_normalized rates df amount_col currency_col r"
  by (cases currency_col)
    (auto simp: has_column_def claimed_normalized_def parse_amount_claimed float_cell_def
      split: option.splits)

text \<open>
  C2. On a frame with the amount column, \<^verbatim>\<open>normalize_currency\<close>
  writes the column \<^verbatim>\<open><amount_col>_normalized\<close>: the parsed amount of the row (a number
  as it is, a string with everything but digits, dot and minus dropped and then read as a
  float, null when that fails or nothing is left) times the rate that the rates in force
  give for the currency of the row, or 1 when they give none; without a currency column
  the parsed amount itself. The rates in force are the rates of the caller whenever the
  caller gives any; the rates fetched from the rate service come in only when the caller
  gives none. Floats are taken as real numbers.
\<close>

theorem normalize_currency_rows:
  assumes "amount_col \<in> set (cols df)"
  shows "\<exists>out. normalize_currency live df amount_col currency_col rate_map target = Inr out
     \<and> cols out = add_col (cols df) (amount_col @ ''_normalized'')
     \<and> recs out = map (\<lambda>r. r(amount_col @ ''_normalized'' \<mapsto>
                       claimed_normalized
                         (effective_rate_map live df currency_col rate_map target)
                         df amount_col currency_col r)) (recs df)
     \<and> (\<forall>m. rate_map = Some m \<and> m \<noteq> [] \<longrightarrow>
            effective_rate_map live df currency_col rate_map target = m)"
proof -
  let ?rm = "effective_rate_map live df currency_col rate_map target"
  let ?name = "amount_col @ ''_normalized''"
  have m: "\<forall>m. rate_map = Some m \<and> m \<noteq> [] \<longrightarrow> ?rm = m"
    by (auto simp: effective_rate_map_def)
  show ?thesis
  proof (cases "has_column df currency_col")
    case True
    have "normalize_currency live df amount_col currency_col rate_map target
        = Inr (set_column ?name (map (\<lambda>r. claimed_normalized ?rm df amount_col currency_col r)
                 (recs df)) df)"
      using assms True by (simp add: normalize_currency_def Let_def to_target_claimed)
    then show ?thesis
      using m recs_set_column_map[of ?name "claimed_normalized ?rm df amount_col currency_col" df]
      by (simp add: set_column_def)
  next
    case False
    have "map float_cell (map parse_amount (column df amount_col))
        = map (\<lambda>r. claimed_normalized ?rm df amount_col currency_col r) (recs df)"
      using False by (simp add: column_def parsed_claimed)
    then have "normalize_currency live df amount_col currency_col rate_map target
        = Inr (set_column ?name (map (\<lambda>r. claimed_normalized ?rm df amount_col currency_col r)
                 (recs df)) df)"
      using assms False by (simp add: normalize_currency_def Let_def)
    then show ?thesis
      using m recs_set_column_map[of ?name "claimed_normalized ?rm df amount_col currency_col" df]
      by (simp add: set_column_def)
  qed
qed

lemma example_amounts:
  "claimed_amount (PStr ''$10.00'') = Some 10"
  "claimed_amount (PStr (CHR 0xE2 # CHR 0x82 # CHR 0xAC # ''20.00'')) = Some 20"
  by (simp_all add: claimed_amount_def currency_char_def is_digit_def float_of_decimal_def
      float_of_unsigned_def digits_val_def)

text \<open>
  The amounts of the specification: \<^verbatim>\<open>$10.00\<close> parses to 10, and 20 euros at a rate of
  1.1 are 22.
\<close>

theorem normalize_currency_rows_witness:
  "''amount'' \<in> set (cols currency_example)
   \<and> claimed_amount (PStr ''$10.00'') = Some 10
   \<and> (\<exists>out. normalize_currency None currency_example ''amount'' (Some ''currency'')
               (Some example_rates) ''USD'' = Inr out
        \<and> map (\<lambda>r. r ''amount_normalized'') (recs out)
            = [Some (PFloat (Fl 10)), Some (PFloat (Fl 22))])
   \<and> \<bar>22 - (22::real)\<bar> \<le> 1 / 1000"
proof -
  have c: "''amount'' \<in> set (cols currency_example)"
    by (simp add: currency_example_def)
  from normalize_currency_rows [OF c, of None "Some ''currency''" "Some example_rates" "''USD''"]
  obtain out where
    o: "normalize_currency None currency_example ''amount'' (Some ''currency'')
          (Some example_rates) ''USD'' = Inr out"
    and r: "recs out = map (\<lambda>r. r(''amount'' @ ''_normalized'' \<mapsto>
                       claimed_normalized
                         (effective_rate_map None currency_example (Some ''currency'')
                            (Some example_rates) ''USD'')
                         currency_example ''amount'' (Some ''currency'') r)) (recs currency_example)"
    and e: "effective_rate_map None currency_example (Some ''currency'')
              (Some example_rates) ''USD'' = example_rates"
    by (auto simp: example_rates_def)
  have "map (\<lambda>r. r ''amount_normalized'') (recs out)
      = [Some (PFloat (Fl 10)), Some (PFloat (Fl 22))]"
    unfolding r e
    by (simp add: currency_example_def claimed_normalized_def row_get_def example_amounts
        example_rates_def)
  then show ?thesis using c o example_amounts by simp
qed

section \<open>Duplicates\<close>

lemma length_kept:
  "length ms = length rows \<Longrightarrow>
   length (map snd (filter (\<lambda>dr. \<not> fst dr) (zip ms rows))) = length (filter (\<lambda>d. \<not> d) ms)"
  by (induction ms rows rule: list_induct2) auto

lemma length_duplicated_mask: "length (duplicated_mask keep ks) = length ks"
  by (simp add: duplicated_mask_def)

lemma removed_zero_iff:
  "(int (length ms) - int (length (filter (\<lambda>d. \<not> d) ms)) = 0) = (\<forall>d\<in>set ms. \<not> d)"
proof -
  have "length (filter (\<lambda>d. d) ms) + length (filter (\<lambda>d. \<not> d) ms) = length ms"
    by (rule sum_length_filter_compl)
  then have "int (length ms) - int (length (filter (\<lambda>d. \<not> d) ms)) = int (length (filter (\<lambda>d. d) ms))"
    by linarith
  then show ?thesis by (simp add: filter_empty_conv)
qed

lemma mask_clear_first:
  "(\<forall>i<length ks. ks ! i \<notin> set (take i ks))
     = (\<forall>i<length ks. \<forall>j<length ks. i \<noteq> j \<longrightarrow> ks ! i \<noteq> ks ! j)"
proof
  assume c: "\<forall>i<length ks. ks ! i \<notin> set (take i ks)"
  have lt: "ks ! a \<noteq> ks ! b" if "a < b" "b < length ks" for a b
  proof
    assume "ks ! a = ks ! b"
    then have "ks ! b \<in> set (take b ks)"
      using that by (auto simp: in_set_conv_nth intro!: exI[of _ a])
    then show False using c that by blast
  qed
  show "\<forall>i<length ks. \<forall>j<length ks. i \<noteq> j \<longrightarrow> ks ! i \<noteq> ks ! j"
  proof (intro allI impI)
    fix i j assume "i < length ks" "j < length ks" "i \<noteq> j"
    then show "ks ! i \<noteq> ks ! j"
      using lt[of i j] lt[of j i] by (cases "i < j") auto
  qed
next
  assume d: "\<forall>i<length ks. \<forall>j<length ks. i \<noteq> j \<longrightarrow> ks ! i \<noteq> ks ! j"
  show "\<forall>i<length ks. ks ! i \<notin> set (take i ks)"
  proof (intro allI impI notI)
    fix i assume i: "i < length ks" and "ks ! i \<in> set (take i ks)"
    then obtain a where a: "a < i" "ks ! a = ks ! i"
      by (auto simp: in_set_conv_nth)
    have "a < length ks" using a i by simp
    then show False using d i a by force
  qed
qed


lemma mask_clear_last:
  "(\<forall>i<length ks. ks ! i \<notin> set (drop (Suc i) ks))
     = (\<forall>i<length ks. \<forall>j<length ks. i \<noteq> j \<longrightarrow> ks ! i \<noteq> ks ! j)"
proof
  assume c: "\<forall>i<length ks. ks ! i \<notin> set (drop (Suc i) ks)"
  have lt: "ks ! a \<noteq> ks ! b" if "a < b" "b < length ks" for a b
  proof
    assume e: "ks ! a = ks ! b"
    have "drop (Suc a) ks ! (b - Suc a) = ks ! b" using that by simp
    moreover have "b - Suc a < length (drop (Suc a) ks)" using that by simp
    ultimately have "ks ! b \<in> set (drop (Suc a) ks)" using nth_mem by metis
    then have "ks ! a \<in> set (drop (Suc a) ks)" using e by simp
    moreover have "a < length ks" using that by simp
    ultimately show False using c by blast
  qed
  show "\<forall>i<length ks. \<forall>j<length ks. i \<noteq> j \<longrightarrow> ks ! i \<noteq> ks ! j"
  proof (intro allI impI)
    fix i j assume "i < length ks" "j < length ks" "i \<noteq> j"
    then show "ks ! i \<noteq> ks ! j"
      using lt[of i j] lt[of j i] by (cases "i < j") auto
  qed
next
  assume d: "\<forall>i<length ks. \<forall>j<length ks. i \<noteq> j \<longrightarrow> ks ! i \<noteq> ks ! j"
  show "\<forall>i<length ks. ks ! i \<notin> set (drop (Suc i) ks)"
  proof (intro allI impI notI)
    fix i assume i: "i < length ks" and "ks ! i \<in> set (drop (Suc i) ks)"
    then obtain a where a: "a < length ks - Suc i" "drop (Suc i) ks ! a = ks ! i"
      by (auto simp: in_set_conv_nth)
    have b: "Suc i + a < length ks" using a by simp
    then have "ks ! (Suc i + a) = ks ! i" using a by simp
    moreover have "Suc i + a \<noteq> i" by simp
    ultimately show False using d i b by metis
  qed
qed

lemma set_duplicated_mask:
  "(\<forall>d\<in>set (duplicated_mask keep ks). \<not> d) =
     (\<forall>i<length ks.
        \<not> (if keep = PStr ''first'' then ks ! i \<in> set (take i ks)
            else if keep = PStr ''last'' then ks ! i \<in> set (drop (Suc i) ks)
            else ks ! i \<in> set (take i ks) \<or> ks ! i \<in> set (drop (Suc i) ks)))"
  by (auto simp: duplicated_mask_def)

lemma mask_clear_iff:
  "(\<forall>d\<in>set (duplicated_mask keep ks). \<not> d)
     = (\<forall>i<length ks. \<forall>j<length ks. i \<noteq> j \<longrightarrow> ks ! i \<noteq> ks ! j)"
proof (cases "keep = PStr ''first''")
  case True
  then show ?thesis by (simp add: set_duplicated_mask mask_clear_first)
next
  case False
  show ?thesis
  proof (cases "keep = PStr ''last''")
    case True
    then show ?thesis by (simp add: set_duplicated_mask mask_clear_last)
  next
    case l: False
    have "(\<forall>d\<in>set (duplicated_mask keep ks). \<not> d)
        = ((\<forall>i<length ks. ks ! i \<notin> set (take i ks))
           \<and> (\<forall>i<length ks. ks ! i \<notin> set (drop (Suc i) ks)))"
      using False l by (auto simp: set_duplicated_mask)
    then show ?thesis by (simp add: mask_clear_first mask_clear_last)
  qed
qed

text \<open>
  C6, as amended. On a frame with at least one column, for the subset left out or a
  non-empty list of columns of the frame, and for each of the three keep policies,
  \<^verbatim>\<open>remove_duplicates\<close> returns a pair of the cleaned frame and the number of removed rows;
  the rows of the cleaned frame and the removed ones add up to the rows of the input, and
  nothing is removed exactly when no two rows of the input are equal on the columns
  compared (all columns when the subset is left out).
\<close>

theorem remove_duplicates_count:
  assumes "cols df \<noteq> []"
    and "subset_keys = None \<or> (\<exists>ks. subset_keys = Some ks \<and> ks \<noteq> [] \<and> set ks \<subseteq> set (cols df))"
    and "keep = PStr ''first'' \<or> keep = PStr ''last'' \<or> keep = PBool False"
  shows "\<exists>cleaned removed. remove_duplicates df subset_keys keep = Inr (cleaned, removed)
      \<and> int (length (recs cleaned)) + removed = int (length (recs df))
      \<and> (removed = 0 \<longleftrightarrow> distinct (compared_keys df subset_keys))"
proof (cases "recs df = []")
  case True
  then show ?thesis
    by (simp add: remove_duplicates_def drop_duplicates_def compared_keys_def)
next
  case False
  let ?ks = "subset_columns df subset_keys"
  let ?keys = "map (row_key (single_column df ?ks) ?ks) (recs df)"
  let ?ms = "duplicated_mask keep ?keys"
  let ?cleaned = "df\<lparr>recs := map snd (filter (\<lambda>dr. \<not> fst dr) (zip ?ms (recs df)))\<rparr>"
  have k1: "list_all (\<lambda>c. c \<in> set (cols df)) ?ks" and k2: "?ks \<noteq> []"
    using assms(1,2) by (auto simp: subset_columns_def list_all_iff)
  have k3: "keep = PStr ''first'' \<or> keep = PStr ''last'' \<or> py_eq keep (PBool False)"
    using assms(3) by auto
  have d: "drop_duplicates df subset_keys keep = Inr ?cleaned"
    using False assms(1) k1 k2 k3 by (simp add: drop_duplicates_def Let_def)
  have len: "length ?ms = length (recs df)"
    by (simp add: length_duplicated_mask)
  have l: "length (recs ?cleaned) = length (filter (\<lambda>d. \<not> d) ?ms)"
    using length_kept[OF len] by simp
  have r: "remove_duplicates df subset_keys keep
      = Inr (?cleaned, int (length (recs df)) - int (length (recs ?cleaned)))"
    by (simp add: remove_duplicates_def d Let_def)
  have z: "(int (length (recs df)) - int (length (recs ?cleaned)) = 0)
      = distinct (compared_keys df subset_keys)"
  proof -
    have "(int (length (recs df)) - int (length (recs ?cleaned)) = 0)
        = (int (length ?ms) - int (length (filter (\<lambda>d. \<not> d) ?ms)) = 0)"
      using l len by simp
    also have "\<dots> = (\<forall>d\<in>set ?ms. \<not> d)" by (rule removed_zero_iff)
    also have "\<dots> = distinct ?keys"
      by (simp only: mask_clear_iff distinct_conv_nth)
    finally show ?thesis by (simp add: compared_keys_def Let_def)
  qed
  show ?thesis using r z by auto
qed

text \<open>
  The frame of the test suite, with all columns compared and the first row of a group
  kept: one row is removed and two stay.
\<close>

theorem remove_duplicates_count_witness:
  "cols duplicates_example \<noteq> []
   \<and> (\<exists>cleaned. remove_duplicates duplicates_example None (PStr ''first'') = Inr (cleaned, 1)
         \<and> length (recs cleaned) = 2)
   \<and> \<not> distinct (compared_keys duplicates_example None)"
proof -
  have c: "cols duplicates_example \<noteq> []" by (simp add: duplicates_example_def)
  have nd: "\<not> distinct (compared_keys duplicates_example None)"
    by (simp add: compared_keys_def duplicates_example_def subset_columns_def row_key_def Let_def)
  from remove_duplicates_count [OF c, of None "PStr ''first''"]
  obtain cleaned removed where
    r: "remove_duplicates duplicates_example None (PStr ''first'') = Inr (cleaned, removed)"
    and s: "int (length (recs cleaned)) + removed = int (length (recs duplicates_example))"
    and z: "removed = 0 \<longleftrightarrow> distinct (compared_keys duplicates_example None)"
    by auto
  have "removed \<noteq> 0" using z nd by simp
  moreover have "removed = 1"
    using r by (simp add: remove_duplicates_def drop_duplicates_def duplicates_example_def
        subset_columns_def single_column_def duplicated_mask_def row_key_def row_get_def
        dup_key_def isna_def upt_rec Let_def)
  moreover have "length (recs cleaned) = 2"
    using s \<open>removed = 1\<close> by (simp add: duplicates_example_def)
  ultimately show ?thesis using c nd r by auto
qed

text \<open>
  C6, as stated, fails on a frame that has rows but no column: pandas returns such a
  frame at once, so nothing is removed although its two rows are equal on all (zero)
  columns.
\<close>

theorem remove_duplicates_count_counterexample:
  "remove_duplicates no_columns_example None (PStr ''first'') = Inr (no_columns_example, 0)
   \<and> \<not> distinct (compared_keys no_columns_example None)"
  by (simp add: remove_duplicates_def drop_duplicates_def no_columns_example_def
      compared_keys_def subset_columns_def row_key_def Let_def)

text \<open>
  Outside the conditions of the theorem the call does not return a pair either: an empty
  list of columns on a frame with rows and columns is a ValueError, a column that the frame
  does not have a KeyError.
\<close>

lemma remove_duplicates_raises:
  "remove_duplicates duplicates_example (Some []) (PStr ''first'') = Inl ValueError"
  "remove_duplicates duplicates_example (Some [''z'']) (PStr ''first'') = Inl KeyError"
  by (simp_all add: remove_duplicates_def drop_duplicates_def duplicates_example_def
      subset_columns_def)

text \<open>
  A single compared column keeps None and NaN apart, so neither of the two rows is
  removed; NaN is equal to NaN there, and among several compared columns None and NaN
  are one key.
\<close>

lemma remove_duplicates_none_nan:
  "remove_duplicates none_nan_example None (PStr ''first'') = Inr (none_nan_example, 0)"
  by (simp add: remove_duplicates_def drop_duplicates_def none_nan_example_def
      subset_columns_def single_column_def duplicated_mask_def row_key_def row_get_def
      dup_key_def isna_def upt_rec Let_def)

lemma dup_key_nulls:
  "dup_key True PNone \<noteq> dup_key True (PFloat NaN)"
  "dup_key False PNone = dup_key False (PFloat NaN)"
  by (simp_all add: dup_key_def isna_def)

section \<open>Imputation\<close>

lemma mode_values_valid: "v \<in> set (mode_values s) \<Longrightarrow> \<not> isna v"
proof -
  assume "v \<in> set (mode_values s)"
  then have "v \<in> set (uniq_keys (filter (\<lambda>v. \<not> isna v) s))"
    by (auto simp: mode_values_def Let_def set_sort_keys)
  then show ?thesis using set_uniq_keys[of "filter (\<lambda>v. \<not> isna v) s"] by auto
qed

lemma valid_values_all_null: "list_all is_none xs \<Longrightarrow> valid_values xs = []"
  by (induction xs) (auto simp: valid_values_def List.map_filter_def is_none_def)

lemma fillna_value_all_null:
  "list_all null xs \<Longrightarrow> fillna_value null v xs = replicate (length xs) v"
  by (induction xs) (auto simp: fillna_value_def)

text \<open>
  Forward fill leaves the nulls before the first valid value as they are, and no null
  after it; backward fill is its mirror image.
\<close>

lemma ffill_leading:
  "ffill null xs = takeWhile null xs @
     (case dropWhile null xs of [] \<Rightarrow> [] | x # rest \<Rightarrow> x # ffill_from null (Some x) rest)"
  unfolding ffill_def by (induction xs) auto

lemma length_ffill_from: "length (ffill_from null prev xs) = length xs"
  by (induction xs arbitrary: prev) (auto split: option.splits)

lemma map_null_ffill_from_seen:
  "\<not> null v \<Longrightarrow> map null (ffill_from null (Some v) xs) = replicate (length xs) False"
  by (induction xs arbitrary: v) auto

lemma ffill_nulls: "map null (ffill null xs) = leading_nulls (map null xs)"
proof -
  have t: "map null (takeWhile null xs) = takeWhile (\<lambda>b. b) (map null xs)"
    by (simp add: takeWhile_map comp_def)
  have d: "dropWhile (\<lambda>b. b) (map null xs) = map null (dropWhile null xs)"
    by (simp add: dropWhile_map comp_def)
  have r: "map null (case dropWhile null xs of [] \<Rightarrow> []
              | x # rest \<Rightarrow> x # ffill_from null (Some x) rest)
      = replicate (length (dropWhile null xs)) False"
  proof (cases "dropWhile null xs")
    case Nil
    then show ?thesis by (simp only: list.case list.map list.size replicate_0)
  next
    case (Cons x rest)
    then have "\<not> null x" using hd_dropWhile[of null xs] by auto
    then show ?thesis using Cons by (simp add: map_null_ffill_from_seen)
  qed
  show ?thesis
    by (simp only: ffill_leading map_append t r leading_nulls_def d length_map)
qed

lemma bfill_nulls: "map null (bfill null xs) = trailing_nulls (map null xs)"
proof -
  have "map null (bfill null xs) = rev (map null (ffill null (rev xs)))"
    by (simp add: bfill_def rev_map)
  also have "\<dots> = rev (leading_nulls (map null (rev xs)))"
    by (simp only: ffill_nulls)
  also have "\<dots> = trailing_nulls (map null xs)"
    by (simp add: trailing_nulls_def rev_map)
  finally show ?thesis .
qed

lemma fillna_value_nulls:
  "\<not> null v \<Longrightarrow> map null (fillna_value null v xs) = replicate (length xs) False"
  by (induction xs) (auto simp: fillna_value_def)

lemma fillna_method_nulls:
  "strategy = ''ffill'' \<or> strategy = ''bfill'' \<Longrightarrow>
   map null (fillna_method strategy null xs) = nulls_left by_value strategy (map null xs)"
  by (auto simp: fillna_method_def nulls_left_def ffill_nulls bfill_nulls)

lemma impute_numeric_nulls:
  "map is_none (impute_numeric numeric_strategy xs)
     = nulls_left True numeric_strategy (map is_none xs)"
proof (cases "numeric_strategy = ''ffill'' \<or> numeric_strategy = ''bfill''")
  case True
  then show ?thesis
    using fillna_method_nulls[OF True, of is_none xs True]
    by (auto simp: impute_numeric_def)
next
  case False
  have "map is_none (fill_numeric val xs) = replicate (length xs) False" for val
    by (simp add: fill_numeric_def Let_def fillna_value_nulls is_none_def)
  then show ?thesis using False by (simp add: impute_numeric_def nulls_left_def)
qed

lemma impute_datetime_nulls:
  "map is_none (impute_datetime datetime_strategy ts)
     = nulls_left (datetime_strategy = ''epoch'') datetime_strategy (map is_none ts)"
proof (cases "datetime_strategy = ''ffill'' \<or> datetime_strategy = ''bfill''")
  case True
  then show ?thesis
    using fillna_method_nulls[OF True, of is_none ts "datetime_strategy = ''epoch''"]
    by (auto simp: impute_datetime_def)
next
  case False
  then show ?thesis
    by (simp add: impute_datetime_def nulls_left_def fillna_value_nulls is_none_def)
qed

lemma impute_categorical_nulls:
  "map isna (impute_categorical categorical_strategy s)
     = nulls_left True categorical_strategy (map isna s)"
proof (cases "categorical_strategy = ''ffill'' \<or> categorical_strategy = ''bfill''")
  case True
  then show ?thesis
    using fillna_method_nulls[OF True, of isna s True]
    by (auto simp: impute_categorical_def)
next
  case False
  have str: "\<not> isna (PStr t)" for t by (simp add: isna_def)
  have m: "\<not> isna (if 0 < length (mode_values s) then hd (mode_values s) else PStr '''')"
    using mode_values_valid[of "hd (mode_values s)" s] str by (cases "mode_values s") auto
  show ?thesis
    using False m str
    by (simp add: impute_categorical_def nulls_left_def Let_def fillna_value_nulls)
qed

lemma impute_series_nulls:
  "null_mask (impute_series fr dt numeric_strategy categorical_strategy datetime_strategy s)
     = claimed_nulls fr dt numeric_strategy categorical_strategy datetime_strategy s"
  by (cases s)
    (simp_all add: impute_series_def null_mask_def claimed_nulls_def impute_numeric_nulls
      impute_datetime_nulls impute_categorical_nulls comp_def)

lemma has_null_mask: "has_null s = (True \<in> set (null_mask s))"
  by (cases s) (auto simp: has_null_def null_mask_def list_ex_iff)

lemma claimed_nulls_by_value:
  "fills_by_value fr numeric_strategy categorical_strategy datetime_strategy s \<Longrightarrow>
   True \<notin> set (claimed_nulls fr dt numeric_strategy categorical_strategy datetime_strategy s)"
  by (cases s) (auto simp: fills_by_value_def claimed_nulls_def nulls_left_def split: if_splits)

lemma impute_missing_nth:
  assumes "i < length df" and "explicit_fill fill_values (fst (df ! i)) = None"
  shows "impute_missing fr dt fillna df numeric_strategy categorical_strategy
           datetime_strategy fill_values ! i
       = (fst (df ! i), impute_series fr dt numeric_strategy categorical_strategy
                          datetime_strategy (snd (df ! i)))"
  using assms by (cases "df ! i") (simp add: impute_missing_def explicit_fill_def Let_def)

lemma length_impute_missing:
  "length (impute_missing fr dt fillna df numeric_strategy categorical_strategy
            datetime_strategy fill_values) = length df"
  by (simp add: impute_missing_def Let_def)

lemma names_impute_missing:
  "map fst (impute_missing fr dt fillna df numeric_strategy categorical_strategy
            datetime_strategy fill_values) = map fst df"
  by (simp add: impute_missing_def Let_def split: prod.splits option.splits)

lemma impute_numeric_all_null:
  assumes "list_all is_none xs"
    and "numeric_strategy \<noteq> ''ffill''" and "numeric_strategy \<noteq> ''bfill''"
  shows "impute_numeric numeric_strategy xs = replicate (length xs) (Some 0)"
  using assms
  by (simp add: impute_numeric_def fill_numeric_def median_def mean_def
      valid_values_all_null fillna_value_all_null Let_def)

text \<open>
  With forward fill no null is left in a column that starts with a value, with backward
  fill in a column that ends with one.
\<close>

lemma leading_nulls_clear:
  "ms \<noteq> [] \<Longrightarrow> \<not> hd ms \<Longrightarrow> leading_nulls ms = replicate (length ms) False"
  by (cases ms) (simp_all add: leading_nulls_def)

lemma trailing_nulls_clear:
  "ms \<noteq> [] \<Longrightarrow> \<not> last ms \<Longrightarrow> trailing_nulls ms = replicate (length ms) False"
  using leading_nulls_clear[of "rev ms"] by (simp add: trailing_nulls_def hd_rev)

text \<open>
  C7, as amended. \<^verbatim>\<open>impute_missing\<close> keeps the columns, and for every combination of
  strategies and every column without an explicit fill value the nulls of the column
  afterwards are those of \<open>claimed_nulls\<close>: none when the strategy that applies to the
  column fills by a value (a numeric or categorical strategy other than \<^verbatim>\<open>ffill\<close> and
  \<^verbatim>\<open>bfill\<close>, the datetime strategy \<^verbatim>\<open>epoch\<close>), with \<^verbatim>\<open>ffill\<close> the nulls before the first
  value of the column that is not null, with \<^verbatim>\<open>bfill\<close> the nulls after the last one, and
  with any other datetime strategy all nulls of the parsed column. A numeric column of
  nulls only, whose median and mean are null, is filled with zero.
\<close>

theorem impute_missing_nulls:
  assumes "i < length df"
    and "explicit_fill fill_values (fst (df ! i)) = None"
  shows "map fst (impute_missing fr dt fillna df numeric_strategy categorical_strategy
                    datetime_strategy fill_values) = map fst df
     \<and> null_mask (snd (impute_missing fr dt fillna df numeric_strategy categorical_strategy
                          datetime_strategy fill_values ! i))
         = claimed_nulls fr dt numeric_strategy categorical_strategy datetime_strategy
             (snd (df ! i))
     \<and> (fills_by_value fr numeric_strategy categorical_strategy datetime_strategy (snd (df ! i))
          \<longrightarrow> \<not> has_null (snd (impute_missing fr dt fillna df numeric_strategy
                                  categorical_strategy datetime_strategy fill_values ! i)))
     \<and> (\<forall>xs. snd (df ! i) = Numeric xs \<and> list_all is_none xs
               \<and> numeric_strategy \<noteq> ''ffill'' \<and> numeric_strategy \<noteq> ''bfill''
          \<longrightarrow> snd (impute_missing fr dt fillna df numeric_strategy categorical_strategy
                      datetime_strategy fill_values ! i)
                = Numeric (replicate (length xs) (Some 0)))"
proof -
  let ?out = "impute_missing fr dt fillna df numeric_strategy categorical_strategy
                datetime_strategy fill_values"
  let ?s = "impute_series fr dt numeric_strategy categorical_strategy datetime_strategy
              (snd (df ! i))"
  have n: "snd (?out ! i) = ?s"
    using impute_missing_nth[OF assms] by simp
  have m: "null_mask ?s
      = claimed_nulls fr dt numeric_strategy categorical_strategy datetime_strategy (snd (df ! i))"
    by (rule impute_series_nulls)
  have v: "\<not> has_null ?s"
    if "fills_by_value fr numeric_strategy categorical_strategy datetime_strategy (snd (df ! i))"
    using claimed_nulls_by_value[OF that, of dt] by (simp add: has_null_mask m)
  have z: "?s = Numeric (replicate (length xs) (Some 0))"
    if "snd (df ! i) = Numeric xs" "list_all is_none xs"
      "numeric_strategy \<noteq> ''ffill''" "numeric_strategy \<noteq> ''bfill''" for xs
    using that by (simp add: impute_series_def impute_numeric_all_null)
  show ?thesis
    using n m v z by (simp add: names_impute_missing)
qed

text \<open>
  The columns of the test suite and a column of nulls, with the strategies that the code
  takes by default (median, mode, forward fill): no explicit fill value, the median
  strategy fills the null of 1, null, 3 with 2, the mode strategy fills with the most
  frequent cell, the column of nulls becomes zeros, and no null is left.
\<close>

theorem impute_missing_nulls_witness:
  "2 < length imputation_example
   \<and> explicit_fill None (fst (imputation_example ! 2)) = None
   \<and> fills_by_value float_text ''median'' ''mode'' ''ffill'' (snd (imputation_example ! 2))
   \<and> snd (imputation_example ! 2) = Numeric [None, None]
   \<and> list_all is_none [None, None :: real option]
   \<and> impute_missing float_text example_dt fill_cells imputation_example
         ''median'' ''mode'' ''ffill'' None
       = [(''num'', Numeric [Some 1, Some 2, Some 3]),
          (''cat'', Object [PStr ''a'', PStr ''a'', PStr ''a'']),
          (''empty'', Numeric [Some 0, Some 0])]
   \<and> claimed_nulls float_text example_dt ''median'' ''mode'' ''ffill''
         (snd (imputation_example ! 2)) = [False, False]
   \<and> \<not> has_null (snd (impute_missing float_text example_dt fill_cells imputation_example
         ''median'' ''mode'' ''ffill'' None ! 2))"
proof -
  have i: "2 < length imputation_example"
    by (simp add: imputation_example_def)
  have x: "explicit_fill None (fst (imputation_example ! 2)) = None"
    by (simp add: explicit_fill_def)
  have f: "fills_by_value float_text ''median'' ''mode'' ''ffill'' (snd (imputation_example ! 2))"
    by (simp add: fills_by_value_def imputation_example_def)
  have s: "snd (imputation_example ! 2) = Numeric [None, None]"
    by (simp add: imputation_example_def)
  have a: "list_all is_none [None, None :: real option]"
    by (simp add: is_none_def)
  have e: "impute_missing float_text example_dt fill_cells imputation_example
         ''median'' ''mode'' ''ffill'' None
       = [(''num'', Numeric [Some 1, Some 2, Some 3]),
          (''cat'', Object [PStr ''a'', PStr ''a'', PStr ''a'']),
          (''empty'', Numeric [Some 0, Some 0])]"
    by (simp add: impute_missing_def imputation_example_def impute_series_def
        impute_numeric_def fill_numeric_def median_def valid_values_def List.map_filter_def
        fillna_value_def
        is_none_def looks_like_datetime_series_def isna_def impute_categorical_def
        mode_values_def sort_keys_def Let_def)
  have c: "claimed_nulls float_text example_dt ''median'' ''mode'' ''ffill''
         (snd (imputation_example ! 2)) = [False, False]"
    by (simp add: s claimed_nulls_def nulls_left_def)
  show ?thesis
    using i x f s a e c
      impute_missing_nulls [OF i x, of float_text example_dt fill_cells
        "''median''" "''mode''" "''ffill''"]
    by simp
qed

text \<open>
  C7 as stated fails for forward fill: the numeric column null, 1 has a value that is not
  null, and its leading null is still there after \<^verbatim>\<open>impute_missing\<close> with the numeric
  strategy \<^verbatim>\<open>ffill\<close>.
\<close>

theorem impute_missing_ffill_counterexample:
  "impute_missing float_text example_dt fill_cells leading_null_example
     ''ffill'' ''mode'' ''ffill'' None = [(''num'', Numeric [None, Some 1])]
   \<and> has_value (Numeric [None, Some 1]) \<and> has_null (Numeric [None, Some 1])"
  by (simp add: impute_missing_def leading_null_example_def impute_series_def
      impute_numeric_def fillna_method_def ffill_def has_value_def has_null_def is_none_def)

end
